theory Spec2Isabelle
  imports Complex_Main
begin

section \<open>JavaScript numbers\<close>

text \<open>
  A value of the TypeScript type \<open>number\<close> is an IEEE 754 binary64 value: \<open>NaN\<close>, one
  of the two infinities, one of the two zeros, or a finite number other than zero.
  \<open>Fin 0\<close> is \<open>+0\<close> and \<open>NegZero\<close> is \<open>-0\<close>.
\<close>

datatype number = NaN | PInf | NInf | NegZero | Fin real

subsection \<open>Rounding to binary64\<close>

text \<open>
  Every arithmetic operation of the source computes the exact result and rounds it to the
  nearest binary64 value, a tie going to the value with an even significand.
  \<open>round_even\<close> rounds a real to the nearest integer that way. \<open>expo r\<close> is the binary
  exponent of \<open>r\<close>, not below the smallest normal exponent \<open>-1022\<close>; \<open>ulp r\<close> is the
  distance between neighbouring binary64 values at \<open>r\<close> (53 bits of significand);
  \<open>rnd r\<close> is \<open>r\<close> rounded to a multiple of \<open>ulp r\<close>, the exponent range unbounded above.
\<close>

definition round_even :: "real \<Rightarrow> int" where
  "round_even x =
     (let f = \<lfloor>x\<rfloor>
      in if x - of_int f < 1 / 2 then f
         else if 1 / 2 < x - of_int f then f + 1
         else if even f then f else f + 1)"

definition expo :: "real \<Rightarrow> int" where
  "expo r = max \<lfloor>log 2 \<bar>r\<bar>\<rfloor> (- 1022)"

definition ulp :: "real \<Rightarrow> real" where
  "ulp r = 2 powi (expo r - 52)"

definition rnd :: "real \<Rightarrow> real" where
  "rnd r = of_int (round_even (r / ulp r)) * ulp r"

definition signed_infinity :: "bool \<Rightarrow> number" where
  "signed_infinity neg = (if neg then NInf else PInf)"

definition signed_zero :: "bool \<Rightarrow> number" where
  "signed_zero neg = (if neg then NegZero else Fin 0)"

text \<open>
  \<open>fl r\<close> is the number an operation returns whose exact result is \<open>r\<close>: a rounded
  value of magnitude \<open>2^1024\<close> or more overflows to an infinity, a rounded value of zero
  keeps the sign of \<open>r\<close>. An exact result of zero gets its sign from the operation.
\<close>

definition fl :: "real \<Rightarrow> number" where
  "fl r =
     (if r = 0 then Fin 0
      else if 2 ^ 1024 \<le> \<bar>rnd r\<bar> then signed_infinity (r < 0)
      else if rnd r = 0 then signed_zero (r < 0)
      else Fin (rnd r))"

text \<open>
  A decimal literal of the source, such as \<open>0.19077\<close>, denotes the binary64 value nearest
  to it. The definitions below write \<open>lit\<close> for every literal with a decimal point; an
  integer literal (all of them are far below \<open>2^53\<close>) is its own value and is written
  \<open>Fin\<close>.
\<close>

definition lit :: "real \<Rightarrow> number" where
  "lit d = fl d"

text \<open>
  \<open>is_double r\<close>: the real \<open>r\<close> is the value of a finite binary64 number. \<open>Fin a\<close> is a
  number of the source when \<open>is_double a\<close> holds; the operators below return such values
  whatever their arguments are.
\<close>

definition is_double :: "real \<Rightarrow> bool" where
  "is_double r = (rnd r = r \<and> \<bar>r\<bar> < 2 ^ 1024)"

subsection \<open>Arithmetic and comparison\<close>

fun is_finite :: "number \<Rightarrow> bool" where
  "is_finite (Fin a) = True"
| "is_finite NegZero = True"
| "is_finite _ = False"

fun num_val :: "number \<Rightarrow> real" where
  "num_val (Fin a) = a"
| "num_val _ = 0"

text \<open>The sign bit (that of \<open>NaN\<close> is never looked at).\<close>

fun negative :: "number \<Rightarrow> bool" where
  "negative (Fin a) = (a < 0)"
| "negative NegZero = True"
| "negative NInf = True"
| "negative _ = False"

text \<open>
  The operators \<open>+\<close>, unary and binary \<open>-\<close>, \<open>*\<close>, \<open>/\<close>, \<open><\<close> and \<open><=\<close> of the source.
  \<open>NaN\<close> is passed on; \<open>Infinity - Infinity\<close>, \<open>0 * Infinity\<close>, \<open>0 / 0\<close> and
  \<open>Infinity / Infinity\<close> are \<open>NaN\<close>; a sum that is exactly zero is \<open>-0\<close> only when both
  terms are \<open>-0\<close>; the sign of a product or quotient that is zero or infinite is the
  exclusive or of the signs. A comparison with \<open>NaN\<close> is false and the two zeros are
  equal.
\<close>

instantiation number :: "{plus, uminus, minus, times, inverse, ord}"
begin

definition plus_number :: "number \<Rightarrow> number \<Rightarrow> number" where
  "plus_number x y =
     (if x = NaN \<or> y = NaN then NaN
      else if \<not> is_finite x then (if \<not> is_finite y \<and> y \<noteq> x then NaN else x)
      else if \<not> is_finite y then y
      else if num_val x + num_val y = 0 then signed_zero (negative x \<and> negative y)
      else fl (num_val x + num_val y))"

fun uminus_number :: "number \<Rightarrow> number" where
  "uminus_number NaN = NaN"
| "uminus_number PInf = NInf"
| "uminus_number NInf = PInf"
| "uminus_number NegZero = Fin 0"
| "uminus_number (Fin a) = (if a = 0 then NegZero else Fin (- a))"

definition minus_number :: "number \<Rightarrow> number \<Rightarrow> number" where
  "minus_number x y = x + (- y)"

definition times_number :: "number \<Rightarrow> number \<Rightarrow> number" where
  "times_number x y =
     (if x = NaN \<or> y = NaN then NaN
      else if \<not> (is_finite x \<and> is_finite y) then
        (if (is_finite x \<and> num_val x = 0) \<or> (is_finite y \<and> num_val y = 0) then NaN
         else signed_infinity (negative x \<noteq> negative y))
      else if num_val x * num_val y = 0 then signed_zero (negative x \<noteq> negative y)
      else fl (num_val x * num_val y))"

definition divide_number :: "number \<Rightarrow> number \<Rightarrow> number" where
  "divide_number x y =
     (if x = NaN \<or> y = NaN then NaN
      else if \<not> is_finite x then
        (if \<not> is_finite y then NaN else signed_infinity (negative x \<noteq> negative y))
      else if \<not> is_finite y then signed_zero (negative x \<noteq> negative y)
      else if num_val y = 0 then
        (if num_val x = 0 then NaN else signed_infinity (negative x \<noteq> negative y))
      else if num_val x = 0 then signed_zero (negative x \<noteq> negative y)
      else fl (num_val x / num_val y))"

definition inverse_number :: "number \<Rightarrow> number" where
  "inverse_number x = divide (Fin 1) x"

definition less_number :: "number \<Rightarrow> number \<Rightarrow> bool" where
  "less_number x y =
     (x \<noteq> NaN \<and> y \<noteq> NaN
      \<and> (x = NInf \<and> y \<noteq> NInf \<or> y = PInf \<and> x \<noteq> PInf
         \<or> is_finite x \<and> is_finite y \<and> num_val x < num_val y))"

definition less_eq_number :: "number \<Rightarrow> number \<Rightarrow> bool" where
  "less_eq_number x y =
     (x \<noteq> NaN \<and> y \<noteq> NaN
      \<and> (x = NInf \<or> y = PInf \<or> is_finite x \<and> is_finite y \<and> num_val x \<le> num_val y))"

instance ..

end

text \<open>
  Truthiness of a number, the test of \<open>!x\<close>, \<open>x ? a : b\<close> and \<open>x && y\<close>: \<open>NaN\<close>
  and the two zeros are falsy. An optional field that is absent (\<open>undefined\<close>) is falsy
  too.
\<close>

definition truthy :: "number \<Rightarrow> bool" where
  "truthy n = (n \<noteq> NaN \<and> n \<noteq> NegZero \<and> n \<noteq> Fin 0)"

definition truthy_opt :: "number option \<Rightarrow> bool" where
  "truthy_opt v = (case v of None \<Rightarrow> False | Some n \<Rightarrow> truthy n)"

subsection \<open>The Math object\<close>

text \<open>\<open>Math.PI\<close> is the binary64 value \<open>3.141592653589793\<close>, which is \<open>884279719003555 / 2^48\<close>.\<close>

definition Math_PI :: number where
  "Math_PI = Fin (884279719003555 / 2 ^ 48)"

fun Math_abs :: "number \<Rightarrow> number" where
  "Math_abs NaN = NaN"
| "Math_abs PInf = PInf"
| "Math_abs NInf = PInf"
| "Math_abs NegZero = Fin 0"
| "Math_abs (Fin a) = Fin \<bar>a\<bar>"

text \<open>
  \<open>Math.max\<close> and \<open>Math.min\<close> of two arguments: \<open>NaN\<close> if either is \<open>NaN\<close>, and
  \<open>-0\<close> counts as smaller than \<open>+0\<close>.
\<close>

definition Math_max :: "number \<Rightarrow> number \<Rightarrow> number" where
  "Math_max x y =
     (if x = NaN \<or> y = NaN then NaN
      else if x < y then y
      else if y < x then x
      else if negative x then y else x)"

definition Math_min :: "number \<Rightarrow> number \<Rightarrow> number" where
  "Math_min x y =
     (if x = NaN \<or> y = NaN then NaN
      else if x < y then x
      else if y < x then y
      else if negative x then x else y)"

text \<open>
  \<open>Math.log10\<close>. The language fixes its result at \<open>NaN\<close>, below zero, at the zeros, at 1
  and at infinity; at every other positive number the result is an
  implementation-approximated value of the logarithm, so it differs between platforms.
  That approximation is the parameter \<open>lg\<close> of \<open>Math_log10\<close> and of the functions that
  call it: the result is \<open>lg a\<close> as a binary64 number. With \<open>lg = log 10\<close> this is the
  correctly rounded logarithm.
\<close>

fun Math_log10 :: "(real \<Rightarrow> real) \<Rightarrow> number \<Rightarrow> number" where
  "Math_log10 lg NaN = NaN"
| "Math_log10 lg PInf = PInf"
| "Math_log10 lg NInf = NaN"
| "Math_log10 lg NegZero = NInf"
| "Math_log10 lg (Fin a) =
     (if a < 0 then NaN else if a = 0 then NInf else if a = 1 then Fin 0 else fl (lg a))"

text \<open>
  \<open>Math.round\<close>: the nearest integer, a tie going up (\<open>Math.round(2.5) = 3\<close>,
  \<open>Math.round(-2.5) = -2\<close>); a negative argument that rounds to zero gives \<open>-0\<close>.
\<close>

fun Math_round :: "number \<Rightarrow> number" where
  "Math_round NaN = NaN"
| "Math_round PInf = PInf"
| "Math_round NInf = NInf"
| "Math_round NegZero = NegZero"
| "Math_round (Fin a) =
     (if \<lfloor>a + 1 / 2\<rfloor> = 0 \<and> a < 0 then NegZero else Fin (of_int \<lfloor>a + 1 / 2\<rfloor>))"

section \<open>Errors\<close>

text \<open>
  The source throws plain \<open>Error\<close> objects, told apart by their messages:
  \<^item> \<open>MissingHipMeasurement\<close>: 'Hip measurement required for female body fat calculation'
  \<^item> \<open>InvalidGoal\<close>: 'Invalid goal specified'
  \<^item> \<open>ProcessingFailed\<close>: 'Failed to process body composition'
\<close>

datatype error = MissingHipMeasurement | InvalidGoal | ProcessingFailed

section \<open>bodyFatCalculator.ts\<close>

record Circumferences =
  waist :: number
  neck :: number
  hip :: "number option"

record BodyMeasurements = Circumferences +
  height :: number
  weight :: number
  age :: number
  sex :: string

record Point =
  pt_x :: number
  pt_y :: number

record BodyLandmarks =
  leftShoulder :: Point
  rightShoulder :: Point
  leftHip :: Point
  rightHip :: Point
  leftKnee :: Point
  rightKnee :: Point
  leftAnkle :: Point
  rightAnkle :: Point
  lm_waist :: Point
  lm_neck :: Point
  lm_hip :: "Point option"

definition calculateCircumferences ::
  "BodyLandmarks \<Rightarrow> number \<Rightarrow> number \<Rightarrow> number \<Rightarrow> Circumferences" where
  "calculateCircumferences landmarks userHeight imageWidth imageHeight =
    (let waistPixel = \<lparr>pt_x = pt_x (lm_waist landmarks) * imageWidth,
                       pt_y = pt_y (lm_waist landmarks) * imageHeight\<rparr>;
         neckPixel = \<lparr>pt_x = pt_x (lm_neck landmarks) * imageWidth,
                      pt_y = pt_y (lm_neck landmarks) * imageHeight\<rparr>;
         estimatedBodyHeightPixels =
           Math_abs (pt_y (leftAnkle landmarks) - pt_y (leftShoulder landmarks)) * imageHeight;
         pixelToCmRatio = userHeight / estimatedBodyHeightPixels;
         waistWidth = Math_abs (pt_x (leftHip landmarks) - pt_x (rightHip landmarks)) * imageWidth;
         waistCircumference = waistWidth * pixelToCmRatio * Math_PI;
         neckWidth =
           Math_abs (pt_x (leftShoulder landmarks) - pt_x (rightShoulder landmarks)) * imageWidth
             * lit 0.3;
         neckCircumference = neckWidth * pixelToCmRatio * Math_PI;
         hipCircumference =
           (case lm_hip landmarks of
              None \<Rightarrow> None
            | Some _ \<Rightarrow>
                (let hipWidth =
                       Math_abs (pt_x (leftHip landmarks) - pt_x (rightHip landmarks)) * imageWidth
                 in Some (hipWidth * pixelToCmRatio * Math_PI)))
     in \<lparr>waist = Math_max waistCircumference (Fin 50),
         neck = Math_max neckCircumference (Fin 25),
         hip = hipCircumference\<rparr>)"

text \<open>
  \<open>calculateBodyFatPercentage\<close>. The argument \<open>lg\<close> is the logarithm that the platform's
  \<open>Math.log10\<close> computes (see \<open>Math_log10\<close>); \<open>!hip\<close> holds when the hip is absent, zero
  or \<open>NaN\<close>.
\<close>

definition calculateBodyFatPercentage ::
  "(real \<Rightarrow> real) \<Rightarrow> BodyMeasurements \<Rightarrow> error + number" where
  "calculateBodyFatPercentage lg measurements =
    (if sex measurements = ''male'' then
       (let logWaistNeck = Math_log10 lg (waist measurements - neck measurements);
            logHeight = Math_log10 lg (height measurements);
            bodyFat = Fin 495 / (lit 1.0324 - lit 0.19077 * logWaistNeck + lit 0.15456 * logHeight)
                        - Fin 450
        in Inr (Math_max (Fin 3) (Math_min (Fin 50) bodyFat)))
     else
       (case hip measurements of
          None \<Rightarrow> Inl MissingHipMeasurement
        | Some hipValue \<Rightarrow>
            if \<not> truthy hipValue then Inl MissingHipMeasurement
            else
              (let logWaistHipNeck =
                     Math_log10 lg (waist measurements + hipValue - neck measurements);
                   logHeight = Math_log10 lg (height measurements);
                   bodyFat = Fin 495 / (lit 1.29579 - lit 0.35004 * logWaistHipNeck
                                          + lit 0.22100 * logHeight) - Fin 450
               in Inr (Math_max (Fin 8) (Math_min (Fin 50) bodyFat)))))"

text \<open>
  \<open>mockPoseDetection\<close> ignores the image and returns one fixed set of landmarks.
\<close>

definition mockPoseDetection :: "string \<Rightarrow> BodyLandmarks" where
  "mockPoseDetection imageData =
    \<lparr>leftShoulder = \<lparr>pt_x = lit 0.3, pt_y = lit 0.2\<rparr>,
     rightShoulder = \<lparr>pt_x = lit 0.7, pt_y = lit 0.2\<rparr>,
     leftHip = \<lparr>pt_x = lit 0.35, pt_y = lit 0.5\<rparr>,
     rightHip = \<lparr>pt_x = lit 0.65, pt_y = lit 0.5\<rparr>,
     leftKnee = \<lparr>pt_x = lit 0.4, pt_y = lit 0.7\<rparr>,
     rightKnee = \<lparr>pt_x = lit 0.6, pt_y = lit 0.7\<rparr>,
     leftAnkle = \<lparr>pt_x = lit 0.4, pt_y = lit 0.9\<rparr>,
     rightAnkle = \<lparr>pt_x = lit 0.6, pt_y = lit 0.9\<rparr>,
     lm_waist = \<lparr>pt_x = lit 0.5, pt_y = lit 0.45\<rparr>,
     lm_neck = \<lparr>pt_x = lit 0.5, pt_y = lit 0.15\<rparr>,
     lm_hip = Some \<lparr>pt_x = lit 0.5, pt_y = lit 0.55\<rparr>\<rparr>"

text \<open>
  The profile argument of \<open>processBodyComposition\<close> has the four fields
  \<open>height\<close>, \<open>weight\<close>, \<open>age\<close> and \<open>sex\<close>; \<open>UserProfile\<close> of workoutPlans.ts
  has the same four and three more, so it extends this record.
\<close>

record BasicProfile =
  profile_height :: number
  profile_weight :: number
  profile_age :: number
  profile_sex :: string

record BodyComposition =
  result_bodyFatPercentage :: number
  measurements :: BodyMeasurements
  confidence :: number

text \<open>
  \<open>processBodyComposition\<close>. The value drawn by \<open>Math.random()\<close> is the argument
  \<open>random\<close> and the platform's logarithm the argument \<open>lg\<close>. Whatever is thrown
  inside the \<open>try\<close> block is caught and thrown again as \<open>ProcessingFailed\<close>; the
  promise is the result.
\<close>

definition processBodyComposition ::
  "(real \<Rightarrow> real) \<Rightarrow> string \<Rightarrow> string \<Rightarrow> 'a BasicProfile_scheme \<Rightarrow> number
     \<Rightarrow> error + BodyComposition" where
  "processBodyComposition lg frontPhoto sidePhoto userProfile random =
    (let frontLandmarks = mockPoseDetection frontPhoto;
         sideLandmarks = mockPoseDetection sidePhoto;
         circumferences =
           calculateCircumferences frontLandmarks (profile_height userProfile) (Fin 1280) (Fin 720);
         bodyMeasurements =
           \<lparr>waist = waist circumferences, neck = neck circumferences, hip = hip circumferences,
            height = profile_height userProfile,
            weight = profile_weight userProfile,
            age = profile_age userProfile,
            sex = profile_sex userProfile\<rparr>
     in case calculateBodyFatPercentage lg bodyMeasurements of
          Inl _ \<Rightarrow> Inl ProcessingFailed
        | Inr bodyFatPercentage \<Rightarrow>
            (let variation = (random - lit 0.5) * Fin 2;
                 finalBodyFat = bodyFatPercentage + variation
             in Inr \<lparr>result_bodyFatPercentage = Math_max (Fin 5) (Math_min (Fin 45) finalBodyFat),
                     measurements = bodyMeasurements,
                     confidence = lit 0.85\<rparr>))"

section \<open>workoutPlans.ts\<close>

record Exercise =
  ex_name :: string
  sets :: "number option"
  reps :: "string option"
  ex_duration :: "number option"
  rest :: "number option"
  ex_notes :: "string option"

record Workout =
  w_name :: string
  w_type :: string
  w_duration :: number
  exercises :: "Exercise list"
  instructions :: "string list"

record WorkoutPlan =
  title :: string
  description :: string
  workouts :: "Workout list"
  restDays :: "string list"
  duration :: number

record Macros =
  protein :: number
  carbs :: number
  fat :: number

record MealPlan =
  breakfast :: "string list"
  lunch :: "string list"
  dinner :: "string list"
  snacks :: "string list"

record NutritionPlan =
  np_title :: string
  np_description :: string
  dailyCalories :: number
  macros :: Macros
  mealPlan :: MealPlan
  guidelines :: "string list"

text \<open>
  \<open>goal\<close> and \<open>activityLevel\<close> are strings: the types of the source name three and
  five literals, and its \<open>switch\<close> statements have a \<open>default\<close> branch for any
  other string that arrives at run time.
\<close>

record UserProfile = BasicProfile +
  goal :: string
  activityLevel :: string
  bodyFatPercentage :: "number option"

definition calculateBMR :: "UserProfile \<Rightarrow> number" where
  "calculateBMR profile =
    (if profile_sex profile = ''male'' then
       Fin 10 * profile_weight profile + lit 6.25 * profile_height profile
         - Fin 5 * profile_age profile + Fin 5
     else
       Fin 10 * profile_weight profile + lit 6.25 * profile_height profile
         - Fin 5 * profile_age profile - Fin 161)"

definition activityMultipliers :: "string \<rightharpoonup> number" where
  "activityMultipliers =
    [''sedentary'' \<mapsto> lit 1.2,
     ''light'' \<mapsto> lit 1.375,
     ''moderate'' \<mapsto> lit 1.55,
     ''active'' \<mapsto> lit 1.725,
     ''very_active'' \<mapsto> lit 1.9]"

text \<open>
  A level that is not a key of the table reads \<open>undefined\<close>, and a number times
  \<open>undefined\<close> is \<open>NaN\<close>.
\<close>

definition calculateTDEE :: "UserProfile \<Rightarrow> number" where
  "calculateTDEE profile =
    (let bmr = calculateBMR profile
     in case activityMultipliers (activityLevel profile) of
          Some multiplier \<Rightarrow> bmr * multiplier
        | None \<Rightarrow> bmr * NaN)"

definition plan_lose_fat :: WorkoutPlan where
  "plan_lose_fat =
    \<lparr>title = ''Fat Loss Program'',
     description = ''High-intensity workouts focused on burning calories and preserving muscle'',
     workouts =
      [
       \<lparr>w_name = ''Full Body Strength'',
        w_type = ''strength'',
        w_duration = Fin 45,
        exercises =
          [
           \<lparr>ex_name = ''Squats'', sets = Some (Fin 4), reps = Some ''12-15'',
            ex_duration = None, rest = Some (Fin 60), ex_notes = None\<rparr>,
           \<lparr>ex_name = ''Push-ups'', sets = Some (Fin 3), reps = Some ''10-15'',
            ex_duration = None, rest = Some (Fin 45), ex_notes = None\<rparr>,
           \<lparr>ex_name = ''Bent-over Rows'', sets = Some (Fin 3), reps = Some ''10-12'',
            ex_duration = None, rest = Some (Fin 60), ex_notes = None\<rparr>,
           \<lparr>ex_name = ''Lunges'', sets = Some (Fin 3), reps = Some ''12 each leg'',
            ex_duration = None, rest = Some (Fin 45), ex_notes = None\<rparr>,
           \<lparr>ex_name = ''Plank'', sets = Some (Fin 3), reps = Some ''30-60 seconds'',
            ex_duration = None, rest = Some (Fin 30), ex_notes = None\<rparr>,
           \<lparr>ex_name = ''Burpees'', sets = Some (Fin 3), reps = Some ''8-12'',
            ex_duration = None, rest = Some (Fin 60), ex_notes = None\<rparr>
          ],
        instructions =
          [''Focus on compound movements'',
           ''Keep rest periods short'',
           ''Maintain proper form throughout'']\<rparr>,
       \<lparr>w_name = ''HIIT Cardio'',
        w_type = ''hiit'',
        w_duration = Fin 25,
        exercises =
          [
           \<lparr>ex_name = ''Jumping Jacks'', sets = None, reps = None,
            ex_duration = Some (Fin 30), rest = Some (Fin 30), ex_notes = None\<rparr>,
           \<lparr>ex_name = ''High Knees'', sets = None, reps = None,
            ex_duration = Some (Fin 30), rest = Some (Fin 30), ex_notes = None\<rparr>,
           \<lparr>ex_name = ''Mountain Climbers'', sets = None, reps = None,
            ex_duration = Some (Fin 30), rest = Some (Fin 30), ex_notes = None\<rparr>,
           \<lparr>ex_name = ''Burpees'', sets = None, reps = None,
            ex_duration = Some (Fin 30), rest = Some (Fin 30), ex_notes = None\<rparr>,
           \<lparr>ex_name = ''Jump Squats'', sets = None, reps = None,
            ex_duration = Some (Fin 30), rest = Some (Fin 30), ex_notes = None\<rparr>
          ],
        instructions =
          [''Perform each exercise for 30 seconds'',
           ''Rest for 30 seconds between exercises'',
           ''Complete 4-5 rounds'']\<rparr>,
       \<lparr>w_name = ''Steady State Cardio'',
        w_type = ''cardio'',
        w_duration = Fin 30,
        exercises =
          [
           \<lparr>ex_name = ''Running/Jogging'', sets = None, reps = None,
            ex_duration = Some (Fin 30), rest = None, ex_notes = Some ''Maintain moderate pace''\<rparr>,
           \<lparr>ex_name = ''Cycling'', sets = None, reps = None,
            ex_duration = Some (Fin 30), rest = None, ex_notes = Some ''Indoor or outdoor cycling''\<rparr>,
           \<lparr>ex_name = ''Swimming'', sets = None, reps = None,
            ex_duration = Some (Fin 30), rest = None, ex_notes = Some ''Continuous laps''\<rparr>
          ],
        instructions =
          [''Choose one cardio activity'',
           ''Maintain steady pace throughout'',
           ''Keep heart rate in fat-burning zone'']\<rparr>
      ],
     restDays = [''Sunday''],
     duration = Fin 12\<rparr>"

definition plan_gain_muscle :: WorkoutPlan where
  "plan_gain_muscle =
    \<lparr>title = ''Muscle Building Program'',
     description = ''Progressive overload focused on building lean muscle mass'',
     workouts =
      [
       \<lparr>w_name = ''Push Day'',
        w_type = ''strength'',
        w_duration = Fin 60,
        exercises =
          [
           \<lparr>ex_name = ''Bench Press'', sets = Some (Fin 4), reps = Some ''6-8'',
            ex_duration = None, rest = Some (Fin 120), ex_notes = None\<rparr>,
           \<lparr>ex_name = ''Overhead Press'', sets = Some (Fin 4), reps = Some ''6-8'',
            ex_duration = None, rest = Some (Fin 120), ex_notes = None\<rparr>,
           \<lparr>ex_name = ''Incline Dumbbell Press'', sets = Some (Fin 3), reps = Some ''8-10'',
            ex_duration = None, rest = Some (Fin 90), ex_notes = None\<rparr>,
           \<lparr>ex_name = ''Lateral Raises'', sets = Some (Fin 3), reps = Some ''12-15'',
            ex_duration = None, rest = Some (Fin 60), ex_notes = None\<rparr>,
           \<lparr>ex_name = ''Tricep Dips'', sets = Some (Fin 3), reps = Some ''10-12'',
            ex_duration = None, rest = Some (Fin 60), ex_notes = None\<rparr>,
           \<lparr>ex_name = ''Push-ups'', sets = Some (Fin 3), reps = Some ''15-20'',
            ex_duration = None, rest = Some (Fin 60), ex_notes = None\<rparr>
          ],
        instructions =
          [''Focus on progressive overload'',
           ''Increase weight when you can complete all reps'',
           ''Maintain strict form'']\<rparr>,
       \<lparr>w_name = ''Pull Day'',
        w_type = ''strength'',
        w_duration = Fin 60,
        exercises =
          [
           \<lparr>ex_name = ''Deadlifts'', sets = Some (Fin 4), reps = Some ''5-6'',
            ex_duration = None, rest = Some (Fin 180), ex_notes = None\<rparr>,
           \<lparr>ex_name = ''Pull-ups/Chin-ups'', sets = Some (Fin 4), reps = Some ''6-10'',
            ex_duration = None, rest = Some (Fin 120), ex_notes = None\<rparr>,
           \<lparr>ex_name = ''Bent-over Rows'', sets = Some (Fin 4), reps = Some ''8-10'',
            ex_duration = None, rest = Some (Fin 120), ex_notes = None\<rparr>,
           \<lparr>ex_name = ''Lat Pulldowns'', sets = Some (Fin 3), reps = Some ''10-12'',
            ex_duration = None, rest = Some (Fin 90), ex_notes = None\<rparr>,
           \<lparr>ex_name = ''Bicep Curls'', sets = Some (Fin 3), reps = Some ''12-15'',
            ex_duration = None, rest = Some (Fin 60), ex_notes = None\<rparr>,
           \<lparr>ex_name = ''Face Pulls'', sets = Some (Fin 3), reps = Some ''15-20'',
            ex_duration = None, rest = Some (Fin 60), ex_notes = None\<rparr>
          ],
        instructions =
          [''Focus on back and bicep development'',
           ''Use full range of motion'',
           ''Control the weight on both phases'']\<rparr>,
       \<lparr>w_name = ''Legs Day'',
        w_type = ''strength'',
        w_duration = Fin 60,
        exercises =
          [
           \<lparr>ex_name = ''Squats'', sets = Some (Fin 4), reps = Some ''6-8'',
            ex_duration = None, rest = Some (Fin 180), ex_notes = None\<rparr>,
           \<lparr>ex_name = ''Romanian Deadlifts'', sets = Some (Fin 4), reps = Some ''8-10'',
            ex_duration = None, rest = Some (Fin 120), ex_notes = None\<rparr>,
           \<lparr>ex_name = ''Leg Press'', sets = Some (Fin 3), reps = Some ''12-15'',
            ex_duration = None, rest = Some (Fin 90), ex_notes = None\<rparr>,
           \<lparr>ex_name = ''Walking Lunges'', sets = Some (Fin 3), reps = Some ''20 steps'',
            ex_duration = None, rest = Some (Fin 90), ex_notes = None\<rparr>,
           \<lparr>ex_name = ''Calf Raises'', sets = Some (Fin 4), reps = Some ''15-20'',
            ex_duration = None, rest = Some (Fin 60), ex_notes = None\<rparr>,
           \<lparr>ex_name = ''Leg Curls'', sets = Some (Fin 3), reps = Some ''12-15'',
            ex_duration = None, rest = Some (Fin 60), ex_notes = None\<rparr>
          ],
        instructions =
          [''Focus on compound movements'',
           ''Don't skip leg day!'',
           ''Use proper depth on squats'']\<rparr>
      ],
     restDays = [''Wednesday'', ''Sunday''],
     duration = Fin 16\<rparr>"

definition plan_maintain :: WorkoutPlan where
  "plan_maintain =
    \<lparr>title = ''Maintenance Program'',
     description = ''Balanced approach to maintain current fitness level'',
     workouts =
      [
       \<lparr>w_name = ''Full Body Strength'',
        w_type = ''strength'',
        w_duration = Fin 45,
        exercises =
          [
           \<lparr>ex_name = ''Squats'', sets = Some (Fin 3), reps = Some ''10-12'',
            ex_duration = None, rest = Some (Fin 90), ex_notes = None\<rparr>,
           \<lparr>ex_name = ''Push-ups'', sets = Some (Fin 3), reps = Some ''12-15'',
            ex_duration = None, rest = Some (Fin 60), ex_notes = None\<rparr>,
           \<lparr>ex_name = ''Bent-over Rows'', sets = Some (Fin 3), reps = Some ''10-12'',
            ex_duration = None, rest = Some (Fin 90), ex_notes = None\<rparr>,
           \<lparr>ex_name = ''Lunges'', sets = Some (Fin 3), reps = Some ''10 each leg'',
            ex_duration = None, rest = Some (Fin 60), ex_notes = None\<rparr>,
           \<lparr>ex_name = ''Plank'', sets = Some (Fin 3), reps = Some ''45-60 seconds'',
            ex_duration = None, rest = Some (Fin 45), ex_notes = None\<rparr>,
           \<lparr>ex_name = ''Shoulder Press'', sets = Some (Fin 3), reps = Some ''10-12'',
            ex_duration = None, rest = Some (Fin 60), ex_notes = None\<rparr>
          ],
        instructions =
          [''Maintain current strength levels'',
           ''Focus on form and consistency'',
           ''Adjust intensity as needed'']\<rparr>,
       \<lparr>w_name = ''Cardio Session'',
        w_type = ''cardio'',
        w_duration = Fin 30,
        exercises =
          [
           \<lparr>ex_name = ''Running/Jogging'', sets = None, reps = None,
            ex_duration = Some (Fin 30), rest = None, ex_notes = Some ''Moderate pace''\<rparr>,
           \<lparr>ex_name = ''Cycling'', sets = None, reps = None,
            ex_duration = Some (Fin 30), rest = None, ex_notes = Some ''Steady state''\<rparr>,
           \<lparr>ex_name = ''Swimming'', sets = None, reps = None,
            ex_duration = Some (Fin 30), rest = None, ex_notes = Some ''Continuous laps''\<rparr>
          ],
        instructions =
          [''Choose your preferred cardio'',
           ''Maintain conversational pace'',
           ''Enjoy the activity'']\<rparr>,
       \<lparr>w_name = ''Flexibility & Mobility'',
        w_type = ''flexibility'',
        w_duration = Fin 20,
        exercises =
          [
           \<lparr>ex_name = ''Dynamic Warm-up'', sets = None, reps = None,
            ex_duration = Some (Fin 5), rest = None, ex_notes = None\<rparr>,
           \<lparr>ex_name = ''Static Stretching'', sets = None, reps = None,
            ex_duration = Some (Fin 10), rest = None, ex_notes = None\<rparr>,
           \<lparr>ex_name = ''Foam Rolling'', sets = None, reps = None,
            ex_duration = Some (Fin 5), rest = None, ex_notes = None\<rparr>
          ],
        instructions =
          [''Focus on major muscle groups'',
           ''Hold stretches for 30-60 seconds'',
           ''Don't bounce during stretches'']\<rparr>
      ],
     restDays = [''Wednesday'', ''Sunday''],
     duration = Fin 8\<rparr>"

definition getBaseWorkoutPlan :: "string \<Rightarrow> error + WorkoutPlan" where
  "getBaseWorkoutPlan g =
    (if g = ''lose_fat'' then Inr plan_lose_fat
     else if g = ''gain_muscle'' then Inr plan_gain_muscle
     else if g = ''maintain'' then Inr plan_maintain
     else Inl InvalidGoal)"

definition customizeWorkoutPlan :: "WorkoutPlan \<Rightarrow> UserProfile \<Rightarrow> WorkoutPlan" where
  "customizeWorkoutPlan basePlan profile =
    (let customizedPlan = basePlan;
         customizedPlan =
           (if Fin 50 < profile_age profile then
              customizedPlan\<lparr>workouts :=
                map (\<lambda>workout. workout\<lparr>exercises :=
                       map (\<lambda>exercise. exercise
                              \<lparr>sets := (case sets exercise of
                                          None \<Rightarrow> None
                                        | Some s \<Rightarrow>
                                            if truthy s then Some (Math_max (Fin 2) (s - Fin 1))
                                            else Some s),
                               rest := (case rest exercise of
                                          None \<Rightarrow> None
                                        | Some r \<Rightarrow>
                                            if truthy r then Some (r + Fin 30) else Some r)\<rparr>)
                         (exercises workout)\<rparr>)
                  (workouts customizedPlan)\<rparr>
            else customizedPlan);
         customizedPlan =
           (if (case bodyFatPercentage profile of
                  None \<Rightarrow> False
                | Some b \<Rightarrow> truthy b \<and> Fin 25 < b) then
              customizedPlan\<lparr>workouts :=
                map (\<lambda>workout. workout\<lparr>exercises := take 4 (exercises workout)\<rparr>)
                  (workouts customizedPlan)\<rparr>
            else customizedPlan)
     in customizedPlan)"

definition generateWorkoutPlan :: "UserProfile \<Rightarrow> error + WorkoutPlan" where
  "generateWorkoutPlan profile =
    (case getBaseWorkoutPlan (goal profile) of
       Inl e \<Rightarrow> Inl e
     | Inr basePlan \<Rightarrow> Inr (customizeWorkoutPlan basePlan profile))"

definition generateMealPlan :: "number \<Rightarrow> Macros \<Rightarrow> string \<Rightarrow> MealPlan" where
  "generateMealPlan calories ms g =
    \<lparr>breakfast =
       [''Oatmeal with berries and protein powder'',
        ''Greek yogurt with granola and fruit'',
        ''Scrambled eggs with whole grain toast'',
        ''Protein smoothie with banana and spinach''],
     lunch =
       [''Grilled chicken salad with quinoa'',
        ''Turkey and avocado wrap'',
        ''Salmon with sweet potato and vegetables'',
        ''Lentil soup with whole grain bread''],
     dinner =
       [''Lean beef with brown rice and broccoli'',
        ''Baked fish with quinoa and roasted vegetables'',
        ''Chicken stir-fry with vegetables'',
        ''Turkey meatballs with whole grain pasta''],
     snacks =
       [''Apple with almond butter'',
        ''Greek yogurt with berries'',
        ''Protein bar'',
        ''Mixed nuts and dried fruit'']\<rparr>"

definition generateNutritionGuidelines :: "string \<Rightarrow> string list" where
  "generateNutritionGuidelines g =
    (if g = ''lose_fat'' then
       [''Eat protein with every meal to preserve muscle mass'',
        ''Focus on whole, unprocessed foods'',
        ''Stay hydrated - drink at least 8 glasses of water daily'',
        ''Eat plenty of vegetables for fiber and nutrients'',
        ''Limit processed foods and added sugars'',
        ''Consider intermittent fasting if it fits your lifestyle'']
     else if g = ''gain_muscle'' then
       [''Eat protein within 30 minutes of workouts'',
        ''Consume complex carbs before and after training'',
        ''Eat frequent, smaller meals throughout the day'',
        ''Include healthy fats for hormone production'',
        ''Stay consistent with your eating schedule'',
        ''Consider a post-workout protein shake'']
     else if g = ''maintain'' then
       [''Eat a balanced diet with all macronutrients'',
        ''Listen to your body's hunger and fullness cues'',
        ''Stay hydrated throughout the day'',
        ''Include a variety of colorful fruits and vegetables'',
        ''Moderate your intake of processed foods'',
        ''Enjoy treats in moderation'']
     else [])"

text \<open>
  \<open>goal.replace('_', ' ')\<close> replaces the first underscore, \<open>toUpperCase\<close> maps the
  letters \<open>a\<close> to \<open>z\<close> to capitals (the goals that reach it are ASCII).
\<close>

fun replace_first :: "char \<Rightarrow> char \<Rightarrow> string \<Rightarrow> string" where
  "replace_first a b [] = []"
| "replace_first a b (c # cs) = (if c = a then b # cs else c # replace_first a b cs)"

definition toUpperCase :: "string \<Rightarrow> string" where
  "toUpperCase cs =
    map (\<lambda>c. case map_of (zip ''abcdefghijklmnopqrstuvwxyz'' ''ABCDEFGHIJKLMNOPQRSTUVWXYZ'') c of
               Some u \<Rightarrow> u
             | None \<Rightarrow> c) cs"

text \<open>
  \<open>generateNutritionPlan\<close>. The \<open>switch\<close> sets \<open>dailyCalories\<close> and \<open>macros\<close> or
  throws; the plan rounds the four numbers.
\<close>

definition generateNutritionPlan :: "UserProfile \<Rightarrow> error + NutritionPlan" where
  "generateNutritionPlan profile =
    (let tdee = calculateTDEE profile
     in case
          (if goal profile = ''lose_fat'' then
             (let dailyCalories = tdee - Fin 500
              in Inr (dailyCalories,
                      \<lparr>protein = profile_weight profile * lit 2.2,
                       carbs = (dailyCalories * lit 0.35) / Fin 4,
                       fat = (dailyCalories * lit 0.25) / Fin 9\<rparr>))
           else if goal profile = ''gain_muscle'' then
             (let dailyCalories = tdee + Fin 300
              in Inr (dailyCalories,
                      \<lparr>protein = profile_weight profile * lit 2.0,
                       carbs = (dailyCalories * lit 0.45) / Fin 4,
                       fat = (dailyCalories * lit 0.25) / Fin 9\<rparr>))
           else if goal profile = ''maintain'' then
             (let dailyCalories = tdee
              in Inr (dailyCalories,
                      \<lparr>protein = profile_weight profile * lit 1.6,
                       carbs = (dailyCalories * lit 0.40) / Fin 4,
                       fat = (dailyCalories * lit 0.30) / Fin 9\<rparr>))
           else Inl InvalidGoal)
        of
          Inl e \<Rightarrow> Inl e
        | Inr (calories, ms) \<Rightarrow>
            Inr \<lparr>np_title =
                   toUpperCase (replace_first CHR ''_'' CHR '' '' (goal profile))
                     @ '' Nutrition Plan'',
                 np_description =
                   ''Personalized nutrition plan for ''
                     @ replace_first CHR ''_'' CHR '' '' (goal profile) @ '' goals'',
                 dailyCalories = Math_round calories,
                 macros = \<lparr>protein = Math_round (protein ms),
                            carbs = Math_round (carbs ms),
                            fat = Math_round (fat ms)\<rparr>,
                 mealPlan = generateMealPlan calories ms (goal profile),
                 guidelines = generateNutritionGuidelines (goal profile)\<rparr>)"

section \<open>The customization pass and its frame, in the words of the specification\<close>

text \<open>
  The age rule: \<open>sets\<close> is reduced by 1 with a floor of 2 when present, \<open>rest\<close> is
  increased by 30 when present.
\<close>

definition reduce_intensity :: "Exercise \<Rightarrow> Exercise" where
  "reduce_intensity e =
     e\<lparr>sets := map_option (\<lambda>s. Math_max (Fin 2) (s - Fin 1)) (sets e),
       rest := map_option (\<lambda>r. r + Fin 30) (rest e)\<rparr>"

definition over_fifty :: "UserProfile \<Rightarrow> bool" where
  "over_fifty p = (Fin 50 < profile_age p)"

definition body_fat_over_25 :: "UserProfile \<Rightarrow> bool" where
  "body_fat_over_25 p = (case bodyFatPercentage p of None \<Rightarrow> False | Some b \<Rightarrow> Fin 25 < b)"

text \<open>
  The pass: first the age rule on every exercise of every workout, then the first four
  exercises of every workout.
\<close>

definition customization_pass :: "UserProfile \<Rightarrow> WorkoutPlan \<Rightarrow> WorkoutPlan" where
  "customization_pass p base =
     base\<lparr>workouts :=
       map (\<lambda>w. w\<lparr>exercises :=
                  (if body_fat_over_25 p then take 4 else id)
                    ((if over_fifty p then map reduce_intensity else id) (exercises w))\<rparr>)
         (workouts base)\<rparr>"

text \<open>
  \<open>eased e' e\<close>: \<open>e'\<close> has one set less than \<open>e\<close> and 30 seconds more rest, where
  \<open>e\<close> has the field.
\<close>

definition eased :: "Exercise \<Rightarrow> Exercise \<Rightarrow> bool" where
  "eased e' e =
     (sets e' = map_option (\<lambda>s. s - Fin 1) (sets e)
      \<and> rest e' = map_option (\<lambda>r. r + Fin 30) (rest e))"

text \<open>
  The frame: what a customized plan keeps of the plan it comes from. The exercises of a
  customized workout stand for the first exercises of the original workout, one for one.
\<close>

definition same_exercise_frame :: "Exercise \<Rightarrow> Exercise \<Rightarrow> bool" where
  "same_exercise_frame e' e =
     (ex_name e' = ex_name e \<and> reps e' = reps e \<and> ex_duration e' = ex_duration e
      \<and> ex_notes e' = ex_notes e)"

definition same_workout_frame :: "Workout \<Rightarrow> Workout \<Rightarrow> bool" where
  "same_workout_frame w' w =
     (w_name w' = w_name w \<and> w_type w' = w_type w \<and> w_duration w' = w_duration w
      \<and> instructions w' = instructions w
      \<and> length (exercises w') \<le> length (exercises w)
      \<and> list_all2 same_exercise_frame (exercises w') (take (length (exercises w')) (exercises w)))"

definition same_plan_frame :: "WorkoutPlan \<Rightarrow> WorkoutPlan \<Rightarrow> bool" where
  "same_plan_frame r b =
     (title r = title b \<and> description r = description b \<and> duration r = duration b
      \<and> restDays r = restDays b
      \<and> list_all2 same_workout_frame (workouts r) (workouts b))"

section \<open>Facts about binary64 numbers\<close>

subsection \<open>Rounding to the nearest integer\<close>

lemma round_even_of_int [simp]: "round_even (of_int k) = k"
  by (simp add: round_even_def)

lemma round_even_near:
  assumes "\<bar>x - of_int m\<bar> < 1 / 2"
  shows "round_even x = m"
proof -
  have "\<lfloor>x\<rfloor> = m \<or> \<lfloor>x\<rfloor> = m - 1"
    using assms by linarith
  then show ?thesis
  proof
    assume f: "\<lfloor>x\<rfloor> = m"
    then have "x - of_int m < 1 / 2" using assms by linarith
    then show ?thesis by (simp add: round_even_def f)
  next
    assume f: "\<lfloor>x\<rfloor> = m - 1"
    then have "1 / 2 < x - of_int (m - 1)" using assms by (simp; linarith)
    then show ?thesis by (simp add: round_even_def f Let_def)
  qed
qed

lemma round_even_bounds: "of_int (round_even x) \<le> x + 1 / 2" "x - 1 / 2 \<le> of_int (round_even x)"
  by (auto simp: round_even_def Let_def; linarith)+

lemma round_even_le: "x \<le> of_int k \<Longrightarrow> round_even x \<le> k"
proof -
  assume a: "x \<le> of_int k"
  show ?thesis
  proof (cases "x = of_int k")
    case True then show ?thesis by simp
  next
    case False
    then have "x < of_int k" using a by simp
    then have "\<lfloor>x\<rfloor> < k" by linarith
    then show ?thesis by (auto simp: round_even_def Let_def)
  qed
qed

lemma round_even_ge: "of_int k \<le> x \<Longrightarrow> k \<le> round_even x"
proof -
  assume a: "of_int k \<le> x"
  then have "k \<le> \<lfloor>x\<rfloor>" by linarith
  then show ?thesis by (auto simp: round_even_def Let_def)
qed

lemma round_even_mono:
  assumes "x \<le> y"
  shows "round_even x \<le> round_even y"
proof (cases "\<lfloor>x\<rfloor> = \<lfloor>y\<rfloor>")
  case True
  then show ?thesis
    using assms by (auto simp: round_even_def Let_def)
next
  case False
  then have "\<lfloor>x\<rfloor> < \<lfloor>y\<rfloor>"
    using assms by (metis floor_mono le_neq_trans)
  then have "\<lfloor>x\<rfloor> + 1 \<le> \<lfloor>y\<rfloor>" by simp
  moreover have "round_even x \<le> \<lfloor>x\<rfloor> + 1" by (auto simp: round_even_def Let_def)
  moreover have "\<lfloor>y\<rfloor> \<le> round_even y" by (auto simp: round_even_def Let_def)
  ultimately show ?thesis by linarith
qed

lemma floor_minus_nonint:
  assumes "x \<noteq> of_int \<lfloor>x\<rfloor>"
  shows "\<lfloor>- x\<rfloor> = - \<lfloor>x\<rfloor> - 1"
proof (rule floor_unique)
  have lt: "of_int \<lfloor>x\<rfloor> < x"
    by (rule order.not_eq_order_implies_strict[OF assms[symmetric] of_int_floor_le])
  have "x < of_int \<lfloor>x\<rfloor> + 1" by linarith
  then show "of_int (- \<lfloor>x\<rfloor> - 1) \<le> - x" by simp
  show "- x < of_int (- \<lfloor>x\<rfloor> - 1) + 1" using lt by simp
qed

lemma round_even_minus: "round_even (- x) = - round_even x"
proof (cases "x = of_int \<lfloor>x\<rfloor>")
  case True
  define k where "k = \<lfloor>x\<rfloor>"
  have x: "x = of_int k" using True by (simp add: k_def)
  have "round_even (of_int (- k)) = - k" by (rule round_even_of_int)
  then have "round_even (- of_int k) = - k" by simp
  then show ?thesis unfolding x by simp
next
  case False
  define f where "f = \<lfloor>x\<rfloor>"
  define d where "d = x - of_int f"
  have f: "\<lfloor>- x\<rfloor> = - f - 1"
    using floor_minus_nonint[OF False] by (simp add: f_def)
  have d': "- x - of_int (- f - 1) = 1 - d"
    by (simp add: d_def)
  consider "d < 1 / 2" | "1 / 2 < d" | "d = 1 / 2" by linarith
  then show ?thesis
  proof cases
    case 1
    then have "round_even x = f"
      unfolding round_even_def Let_def f_def[symmetric] d_def[symmetric] by simp
    moreover have "round_even (- x) = - f"
      unfolding round_even_def Let_def f d' using 1 by simp
    ultimately show ?thesis by simp
  next
    case 2
    then have "round_even x = f + 1"
      unfolding round_even_def Let_def f_def[symmetric] d_def[symmetric] by simp
    moreover have "round_even (- x) = - f - 1"
      unfolding round_even_def Let_def f d' using 2 by simp
    ultimately show ?thesis by simp
  next
    case 3
    then have "round_even x = (if even f then f else f + 1)"
      unfolding round_even_def Let_def f_def[symmetric] d_def[symmetric] by simp
    moreover have "round_even (- x) = (if even f then - f else - f - 1)"
      unfolding round_even_def Let_def f d' using 3 by simp
    ultimately show ?thesis by simp
  qed
qed

subsection \<open>The exponent\<close>

lemma log2_bounds:
  assumes "r \<noteq> 0"
  shows "2 powi \<lfloor>log 2 \<bar>r\<bar>\<rfloor> \<le> \<bar>r\<bar>" "\<bar>r\<bar> < 2 powi (\<lfloor>log 2 \<bar>r\<bar>\<rfloor> + 1)"
proof -
  have pos: "0 < \<bar>r\<bar>" using assms by simp
  have "(2::real) powr \<lfloor>log 2 \<bar>r\<bar>\<rfloor> \<le> \<bar>r\<bar> \<and> \<bar>r\<bar> < 2 powr (\<lfloor>log 2 \<bar>r\<bar>\<rfloor> + 1)"
    using floor_log_eq_powr_iff[OF pos, of 2 "\<lfloor>log 2 \<bar>r\<bar>\<rfloor>"] by simp
  then show "2 powi \<lfloor>log 2 \<bar>r\<bar>\<rfloor> \<le> \<bar>r\<bar>" "\<bar>r\<bar> < 2 powi (\<lfloor>log 2 \<bar>r\<bar>\<rfloor> + 1)"
    using powr_real_of_int'[of 2 "\<lfloor>log 2 \<bar>r\<bar>\<rfloor>"] powr_real_of_int'[of 2 "\<lfloor>log 2 \<bar>r\<bar>\<rfloor> + 1"]
    by simp_all
qed

lemma floor_log2_eq:
  assumes "2 powi k \<le> \<bar>r\<bar>" "\<bar>r\<bar> < 2 powi (k + 1)"
  shows "\<lfloor>log 2 \<bar>r\<bar>\<rfloor> = k"
proof -
  have pos: "0 < \<bar>r\<bar>"
    using assms(1) zero_less_power_int[of "2::real" k] by linarith
  have "(2::real) powr k \<le> \<bar>r\<bar> \<and> \<bar>r\<bar> < 2 powr (k + 1)"
    using assms powr_real_of_int'[of 2 k] powr_real_of_int'[of 2 "k + 1"] by simp
  then show ?thesis
    using floor_log_eq_powr_iff[OF pos, of 2 k] by simp
qed

lemma expo_ge: "- 1022 \<le> expo r"
  by (simp add: expo_def)

lemma expo_minus [simp]: "expo (- r) = expo r"
  by (simp add: expo_def)

lemma expo_normal:
  assumes "2 powi e \<le> \<bar>r\<bar>" "\<bar>r\<bar> < 2 powi (e + 1)" "- 1022 \<le> e"
  shows "expo r = e"
  using floor_log2_eq[OF assms(1,2)] assms(3) by (simp add: expo_def)

lemma expo_upper: "\<bar>r\<bar> < 2 powi (expo r + 1)"
proof (cases "r = 0")
  case True
  then show ?thesis by simp
next
  case False
  have "\<bar>r\<bar> < 2 powi (\<lfloor>log 2 \<bar>r\<bar>\<rfloor> + 1)" by (rule log2_bounds[OF False])
  also have "\<dots> \<le> 2 powi (expo r + 1)"
    by (rule power_int_increasing) (simp_all add: expo_def)
  finally show ?thesis .
qed

lemma expo_lower:
  assumes "- 1022 < expo r" "r \<noteq> 0"
  shows "2 powi expo r \<le> \<bar>r\<bar>"
proof -
  have e: "expo r = \<lfloor>log 2 \<bar>r\<bar>\<rfloor>"
    using assms by (simp add: expo_def max_def split: if_splits)
  show ?thesis using log2_bounds(1)[OF assms(2)] e by simp
qed

lemma expo_mono:
  assumes "\<bar>r\<bar> \<le> \<bar>r'\<bar>" "r \<noteq> 0"
  shows "expo r \<le> expo r'"
proof (rule ccontr)
  assume "\<not> expo r \<le> expo r'"
  then have lt: "expo r' < expo r" by simp
  then have n: "- 1022 < expo r" using expo_ge[of r'] by linarith
  have "\<bar>r'\<bar> < 2 powi (expo r' + 1)" by (rule expo_upper)
  also have "\<dots> \<le> 2 powi expo r"
    by (rule power_int_increasing) (use lt in simp_all)
  also have "\<dots> \<le> \<bar>r\<bar>" by (rule expo_lower[OF n assms(2)])
  finally show False using assms(1) by simp
qed

subsection \<open>The rounding\<close>

lemma ulp_pos [simp]: "0 < ulp r"
  by (simp add: ulp_def)

lemma ulp_nonneg [simp]: "0 \<le> ulp r"
  by (simp add: ulp_def)

lemma round_even_0 [simp]: "round_even 0 = 0"
  using round_even_of_int[of 0] by simp

lemma ulp_minus [simp]: "ulp (- r) = ulp r"
  by (simp add: ulp_def)

lemma rnd_zero [simp]: "rnd 0 = 0"
  by (simp add: rnd_def)

lemma rnd_minus: "rnd (- r) = - rnd r"
  by (simp add: rnd_def round_even_minus)

lemma rnd_eval:
  assumes "expo r = e" "u = 2 powi (e - 52)" "\<bar>r / u - of_int m\<bar> < 1 / 2"
  shows "rnd r = of_int m * u"
  using round_even_near[OF assms(3)] assms(1,2) by (simp add: rnd_def ulp_def)

lemma rnd_nonneg: "0 \<le> r \<Longrightarrow> 0 \<le> rnd r"
proof -
  assume "0 \<le> r"
  then have "of_int 0 \<le> r / ulp r" by simp
  then have "0 \<le> round_even (r / ulp r)" by (rule round_even_ge)
  then show ?thesis by (simp add: rnd_def)
qed

lemma rnd_upper:
  assumes "0 \<le> r"
  shows "rnd r \<le> 2 powi (expo r + 1)"
proof -
  have "r < 2 powi (expo r + 1)" using expo_upper[of r] assms by simp
  also have "(2::real) powi (expo r + 1) = 2 ^ 53 * ulp r"
    by (simp add: ulp_def power_int_diff power_int_add)
  finally have "r / ulp r \<le> of_int (2 ^ 53)"
    by (simp add: field_simps)
  then have "round_even (r / ulp r) \<le> 2 ^ 53" by (rule round_even_le)
  then have "of_int (round_even (r / ulp r)) * ulp r \<le> of_int (2 ^ 53) * ulp r"
    by (intro mult_right_mono) simp_all
  then show ?thesis
    by (simp add: rnd_def ulp_def power_int_diff power_int_add)
qed

lemma rnd_lower:
  assumes "0 < r" "- 1022 < expo r"
  shows "2 powi expo r \<le> rnd r"
proof -
  have "2 powi expo r \<le> r" using expo_lower[OF assms(2)] assms(1) by simp
  moreover have "(2::real) powi expo r = 2 ^ 52 * ulp r"
    by (simp add: ulp_def power_int_diff)
  ultimately have "of_int (2 ^ 52) \<le> r / ulp r"
    by (simp add: field_simps)
  then have "2 ^ 52 \<le> round_even (r / ulp r)" by (rule round_even_ge)
  then have "of_int (2 ^ 52) * ulp r \<le> of_int (round_even (r / ulp r)) * ulp r"
    by (intro mult_right_mono) simp_all
  then show ?thesis
    by (simp add: rnd_def ulp_def power_int_diff)
qed

lemma rnd_mono_pos:
  assumes "0 < r" "r \<le> r'"
  shows "rnd r \<le> rnd r'"
proof (cases "expo r = expo r'")
  case True
  then have u: "ulp r = ulp r'" by (simp add: ulp_def)
  have "r / ulp r' \<le> r' / ulp r'" using assms(2) by (intro divide_right_mono) simp_all
  then have "round_even (r / ulp r') \<le> round_even (r' / ulp r')" by (rule round_even_mono)
  then show ?thesis by (simp add: rnd_def u mult_right_mono)
next
  case False
  have "expo r \<le> expo r'" using assms by (intro expo_mono) simp_all
  then have lt: "expo r < expo r'" using False by simp
  then have n: "- 1022 < expo r'" using expo_ge[of r] by linarith
  have "rnd r \<le> 2 powi (expo r + 1)" using assms(1) by (intro rnd_upper) simp
  also have "\<dots> \<le> 2 powi expo r'"
    by (rule power_int_increasing) (use lt in simp_all)
  also have "\<dots> \<le> rnd r'" using assms by (intro rnd_lower n) simp
  finally show ?thesis .
qed

lemma rnd_mono:
  assumes "r \<le> r'"
  shows "rnd r \<le> rnd r'"
proof -
  consider "0 < r" | "r \<le> 0" "0 \<le> r'" | "r' < 0" by linarith
  then show ?thesis
  proof cases
    case 1
    then show ?thesis using assms by (rule rnd_mono_pos)
  next
    case 2
    have "rnd r \<le> 0" using rnd_nonneg[of "- r"] 2(1) by (simp add: rnd_minus)
    moreover have "0 \<le> rnd r'" using 2(2) by (rule rnd_nonneg)
    ultimately show ?thesis by simp
  next
    case 3
    have "rnd (- r') \<le> rnd (- r)" using 3 assms by (intro rnd_mono_pos) simp_all
    then show ?thesis by (simp add: rnd_minus)
  qed
qed

lemma rnd_exact:
  assumes "r = of_int m * 2 powi e" "\<bar>m\<bar> < 2 ^ 53" "- 1074 \<le> e"
  shows "rnd r = r"
proof (cases "r = 0")
  case True
  then show ?thesis by simp
next
  case False
  define E where "E = expo r - 52"
  have "E \<le> e"
  proof (cases "- 1022 < expo r")
    case True
    have "2 powi expo r \<le> \<bar>r\<bar>" by (rule expo_lower[OF True False])
    also have "\<bar>r\<bar> = of_int \<bar>m\<bar> * 2 powi e" by (simp add: assms(1) abs_mult)
    also have "\<dots> < 2 ^ 53 * 2 powi e"
      using assms(2) by (intro mult_strict_right_mono) simp_all
    also have "\<dots> = 2 powi (e + 53)" by (simp add: power_int_add)
    finally have lt: "2 powi expo r < (2::real) powi (e + 53)" .
    have "expo r < e + 53"
    proof (rule ccontr)
      assume "\<not> expo r < e + 53"
      then have "(2::real) powi (e + 53) \<le> 2 powi expo r"
        by (intro power_int_increasing) simp_all
      then show False
        using lt by simp
    qed
    then show ?thesis by (simp add: E_def)
  next
    case False
    then have "expo r = - 1022" using expo_ge[of r] by linarith
    then show ?thesis using assms(3) by (simp add: E_def)
  qed
  then obtain k where k: "e = E + int k" by (metis zle_iff_zadd)
  have u: "ulp r = 2 powi E" by (simp add: ulp_def E_def)
  have q: "r / 2 powi E = of_int (m * 2 ^ k)"
    by (simp add: assms(1) k power_int_add)
  then have "round_even (r / 2 powi E) = m * 2 ^ k" by (simp only: round_even_of_int)
  then have "rnd r = of_int (m * 2 ^ k) * 2 powi E"
    unfolding rnd_def u by simp
  also have "\<dots> = r"
    by (simp add: assms(1) k power_int_add)
  finally show ?thesis .
qed

lemma fl_not_NaN [simp]: "fl r \<noteq> NaN" "NaN \<noteq> fl r"
  by (auto simp: fl_def signed_infinity_def signed_zero_def)

lemma is_finite_fl: "is_finite (fl r) \<longleftrightarrow> \<bar>rnd r\<bar> < 2 ^ 1024"
  by (auto simp: fl_def signed_infinity_def signed_zero_def)

lemma num_val_fl: "is_finite (fl r) \<Longrightarrow> num_val (fl r) = rnd r"
  by (auto simp: fl_def signed_infinity_def signed_zero_def split: if_splits)

lemma fl_PInf: "fl r = PInf \<longleftrightarrow> 2 ^ 1024 \<le> rnd r"
proof -
  have "r < 0 \<Longrightarrow> rnd r \<le> 0" using rnd_mono[of r 0] by simp
  moreover have "0 \<le> r \<Longrightarrow> 0 \<le> rnd r" by (rule rnd_nonneg)
  ultimately show ?thesis
    by (auto simp: fl_def signed_infinity_def signed_zero_def)
qed

lemma fl_NInf: "fl r = NInf \<longleftrightarrow> rnd r \<le> - (2 ^ 1024)"
proof -
  have "r < 0 \<Longrightarrow> rnd r \<le> 0" using rnd_mono[of r 0] by simp
  moreover have "0 \<le> r \<Longrightarrow> 0 \<le> rnd r" by (rule rnd_nonneg)
  ultimately show ?thesis
    by (auto simp: fl_def signed_infinity_def signed_zero_def)
qed

lemma fl_exact: "is_double r \<Longrightarrow> fl r = Fin r"
  by (auto simp: fl_def is_double_def)

lemma is_double_dyadic:
  assumes "r = of_int m * 2 powi e" "\<bar>m\<bar> < 2 ^ 53" "- 1074 \<le> e" "e \<le> 971"
  shows "is_double r"
proof -
  have "\<bar>r\<bar> = of_int \<bar>m\<bar> * 2 powi e" by (simp add: assms(1) abs_mult)
  also have "\<dots> < 2 ^ 53 * 2 powi e"
    using assms(2) by (intro mult_strict_right_mono) simp_all
  also have "\<dots> = 2 powi (e + 53)" by (simp add: power_int_add)
  also have "\<dots> \<le> 2 powi 1024"
    by (rule power_int_increasing) (use assms(4) in simp_all)
  finally have "\<bar>r\<bar> < 2 ^ 1024" by simp
  then show ?thesis
    using rnd_exact[OF assms(1,2,3)] by (simp add: is_double_def)
qed

lemma is_double_of_int: "\<bar>k\<bar> < 2 ^ 53 \<Longrightarrow> is_double (of_int k)"
  using is_double_dyadic[of "of_int k" k 0] by simp

lemma is_double_numeral [simp]: "numeral n < (2::int) ^ 53 \<Longrightarrow> is_double (numeral n)"
  using is_double_of_int[of "numeral n"] by simp

lemma is_double_neg_numeral [simp]: "numeral n < (2::int) ^ 53 \<Longrightarrow> is_double (- numeral n)"
  using is_double_of_int[of "- numeral n"] by simp

lemma is_double_0 [simp]: "is_double 0"
  by (simp add: is_double_def)

lemma is_double_1 [simp]: "is_double 1"
  using is_double_of_int[of 1] by simp

lemma fl_numeral [simp]: "numeral n < (2::int) ^ 53 \<Longrightarrow> fl (numeral n) = Fin (numeral n)"
  by (simp add: fl_exact)

lemma fl_neg_numeral [simp]: "numeral n < (2::int) ^ 53 \<Longrightarrow> fl (- numeral n) = Fin (- numeral n)"
  by (simp add: fl_exact)

lemma fl_1 [simp]: "fl 1 = Fin 1"
  by (simp add: fl_exact)

lemma fl_0 [simp]: "fl 0 = Fin 0"
  by (simp add: fl_def)

lemma rnd_nonpos: "r \<le> 0 \<Longrightarrow> rnd r \<le> 0"
  using rnd_mono[of r 0] by simp

lemma rnd_abs_upper: "\<bar>rnd r\<bar> \<le> 2 powi (expo r + 1)"
proof (cases "0 \<le> r")
  case True
  then show ?thesis using rnd_upper[OF True] rnd_nonneg[OF True] by simp
next
  case False
  then have "rnd (- r) \<le> 2 powi (expo (- r) + 1)" by (intro rnd_upper) simp
  moreover have "rnd r \<le> 0" using False by (intro rnd_nonpos) simp
  ultimately show ?thesis by (simp add: rnd_minus)
qed

text \<open>Evaluation of the rounding at a normal number.\<close>

lemma round_even_half: "round_even (of_int f + 1 / 2) = (if even f then f else f + 1)"
proof -
  have "\<lfloor>real_of_int f + 1 / 2\<rfloor> = f" by linarith
  then show ?thesis by (simp add: round_even_def)
qed

lemma fl_eval_round:
  assumes "2 powi e \<le> \<bar>r\<bar>" "\<bar>r\<bar> < 2 powi (e + 1)" "- 1022 \<le> e" "e \<le> 1022"
    and "round_even (r / 2 powi (e - 52)) = m"
    and "v = of_int m * 2 powi (e - 52)"
  shows "fl r = Fin v"
proof -
  have ex: "expo r = e" by (rule expo_normal[OF assms(1,2,3)])
  have rv: "rnd r = v"
    using assms(5,6) by (simp add: rnd_def ulp_def ex)
  have "0 < (2::real) powi e" by simp
  then have "0 < \<bar>r\<bar>" using assms(1) by linarith
  then have r0: "r \<noteq> 0" by simp
  have two52: "(2::real) powi e = 2 ^ 52 * 2 powi (e - 52)"
    by (simp add: power_int_diff)
  have "2 ^ 52 \<le> \<bar>r / 2 powi (e - 52)\<bar>"
    using assms(1) by (simp add: two52 field_simps abs_mult)
  moreover have "(2::real) \<le> 2 ^ 52" by simp
  ultimately have "2 \<le> \<bar>r / 2 powi (e - 52)\<bar>" by linarith
  then have "1 \<le> \<bar>real_of_int m\<bar>"
    using round_even_bounds[of "r / 2 powi (e - 52)"] assms(5) by linarith
  then have v0: "v \<noteq> 0" by (auto simp: assms(6))
  have "\<bar>v\<bar> = \<bar>rnd r\<bar>" by (simp add: rv)
  also have "\<dots> \<le> 2 powi (expo r + 1)" by (rule rnd_abs_upper)
  also have "\<dots> \<le> 2 powi 1023"
    by (rule power_int_increasing) (use ex assms(4) in simp_all)
  also have "\<dots> < 2 ^ 1024" by simp
  finally have "\<bar>v\<bar> < 2 ^ 1024" .
  then show ?thesis
    using r0 v0 rv by (simp add: fl_def)
qed

lemma fl_eval:
  assumes "2 powi e \<le> \<bar>r\<bar>" "\<bar>r\<bar> < 2 powi (e + 1)" "- 1022 \<le> e" "e \<le> 1022"
    and "\<bar>r / 2 powi (e - 52) - of_int m\<bar> < 1 / 2"
    and "v = of_int m * 2 powi (e - 52)"
  shows "fl r = Fin v"
  using assms(1-4) round_even_near[OF assms(5)] assms(6) by (rule fl_eval_round)

lemma fl_eval_tie:
  assumes "2 powi e \<le> \<bar>r\<bar>" "\<bar>r\<bar> < 2 powi (e + 1)" "- 1022 \<le> e" "e \<le> 1022"
    and "r / 2 powi (e - 52) = of_int f + 1 / 2"
    and "v = of_int (if even f then f else f + 1) * 2 powi (e - 52)"
  shows "fl r = Fin v"
proof -
  have "round_even (r / 2 powi (e - 52)) = (if even f then f else f + 1)"
    unfolding assms(5) by (rule round_even_half)
  with assms(1-4) show ?thesis
    using assms(6) by (rule fl_eval_round)
qed

subsection \<open>The values of the rounding\<close>

lemma round_even_abs_le: "\<bar>round_even (r / ulp r)\<bar> \<le> 2 ^ 53"
proof -
  have "\<bar>r\<bar> < 2 powi (expo r + 1)" by (rule expo_upper)
  also have "(2::real) powi (expo r + 1) = 2 ^ 53 * ulp r"
    by (simp add: ulp_def power_int_diff power_int_add)
  finally have b: "\<bar>r\<bar> / ulp r \<le> 2 ^ 53"
    by (simp add: field_simps)
  have "r / ulp r \<le> \<bar>r\<bar> / ulp r" "(- \<bar>r\<bar>) / ulp r \<le> r / ulp r"
    by (intro divide_right_mono; simp)+
  then have "r / ulp r \<le> of_int (2 ^ 53)" "of_int (- (2 ^ 53)) \<le> r / ulp r"
    using b by simp_all
  then have "round_even (r / ulp r) \<le> 2 ^ 53" "- (2 ^ 53) \<le> round_even (r / ulp r)"
    by (simp_all only: round_even_le round_even_ge)
  then show ?thesis by linarith
qed

lemma rnd_idem [simp]: "rnd (rnd r) = rnd r"
proof -
  define k where "k = round_even (r / ulp r)"
  define E where "E = expo r - 52"
  have r: "rnd r = of_int k * 2 powi E"
    by (simp add: rnd_def k_def ulp_def E_def)
  have E: "- 1074 \<le> E"
    using expo_ge[of r] by (simp add: E_def)
  have k: "\<bar>k\<bar> \<le> 2 ^ 53"
    unfolding k_def by (rule round_even_abs_le)
  show ?thesis
  proof (cases "\<bar>k\<bar> < 2 ^ 53")
    case True
    show ?thesis by (rule rnd_exact[OF r True E])
  next
    case False
    then consider "k = 2 ^ 53" | "k = - (2 ^ 53)"
      using k by linarith
    then show ?thesis
    proof cases
      case 1
      have "rnd r = of_int 1 * 2 powi (E + 53)"
        by (simp add: r 1 power_int_add)
      then show ?thesis
        by (rule rnd_exact) (use E in simp_all)
    next
      case 2
      have "rnd r = of_int (- 1) * 2 powi (E + 53)"
        by (simp add: r 2 power_int_add)
      then show ?thesis
        by (rule rnd_exact) (use E in simp_all)
    qed
  qed
qed

lemma is_double_rnd: "\<bar>rnd r\<bar> < 2 ^ 1024 \<Longrightarrow> is_double (rnd r)"
  by (simp add: is_double_def)

lemma is_double_fl [simp]: "is_double (num_val (fl r))"
  by (simp add: fl_def signed_infinity_def signed_zero_def is_double_rnd not_le)

lemma rnd_min:
  assumes "rnd r \<noteq> 0"
  shows "2 powi (- 1074) \<le> \<bar>rnd r\<bar>"
proof -
  define k where "k = round_even (r / ulp r)"
  have r: "rnd r = of_int k * ulp r"
    by (simp add: rnd_def k_def)
  then have "k \<noteq> 0" using assms by auto
  then have "1 \<le> \<bar>real_of_int k\<bar>" by linarith
  then have "1 * ulp r \<le> \<bar>real_of_int k\<bar> * ulp r"
    by (intro mult_right_mono) simp_all
  then have "ulp r \<le> \<bar>rnd r\<bar>"
    by (simp add: r abs_mult)
  moreover have "(2::real) powi (- 1074) \<le> ulp r"
    unfolding ulp_def by (rule power_int_increasing) (use expo_ge[of r] in simp_all)
  ultimately show ?thesis by linarith
qed

lemma is_double_min: "is_double a \<Longrightarrow> a \<noteq> 0 \<Longrightarrow> 2 powi (- 1074) \<le> \<bar>a\<bar>"
  using rnd_min[of a] by (simp add: is_double_def)

lemma is_double_minus [simp]: "is_double (- a) = is_double a"
  by (simp add: is_double_def rnd_minus)

lemma is_double_abs [simp]: "is_double \<bar>a\<bar> = is_double a"
  by (simp add: abs_if)

lemma rnd_le_double: "r \<le> b \<Longrightarrow> is_double b \<Longrightarrow> rnd r \<le> b"
  using rnd_mono[of r b] by (simp add: is_double_def)

lemma rnd_ge_double: "b \<le> r \<Longrightarrow> is_double b \<Longrightarrow> b \<le> rnd r"
  using rnd_mono[of b r] by (simp add: is_double_def)

lemma rnd_abs_le_double:
  assumes "\<bar>r\<bar> \<le> b" "is_double b"
  shows "\<bar>rnd r\<bar> \<le> b"
proof -
  have "rnd r \<le> b"
    using assms by (intro rnd_le_double) simp_all
  moreover have "- b \<le> rnd r"
    using assms by (intro rnd_ge_double) simp_all
  ultimately show ?thesis by simp
qed

lemma is_double_less: "is_double b \<Longrightarrow> \<bar>b\<bar> < 2 ^ 1024"
  by (simp add: is_double_def)

lemma fl_bounded:
  assumes "\<bar>r\<bar> \<le> b" "is_double b"
  shows "is_finite (fl r)" "\<bar>num_val (fl r)\<bar> \<le> b" "num_val (fl r) = rnd r"
proof -
  have b: "\<bar>rnd r\<bar> \<le> b" by (rule rnd_abs_le_double[OF assms])
  have "\<bar>b\<bar> < 2 ^ 1024" by (rule is_double_less[OF assms(2)])
  then have "\<bar>rnd r\<bar> < 2 ^ 1024" using b by linarith
  then show f: "is_finite (fl r)" by (simp add: is_finite_fl)
  show v: "num_val (fl r) = rnd r" by (rule num_val_fl[OF f])
  show "\<bar>num_val (fl r)\<bar> \<le> b" using b by (simp add: v)
qed

lemma fl_nonneg: "0 \<le> r \<Longrightarrow> fl r = PInf \<or> (\<exists>a. fl r = Fin a \<and> 0 \<le> a \<and> is_double a)"
  using rnd_nonneg[of r]
  by (auto simp: fl_def signed_infinity_def signed_zero_def is_double_rnd not_le)

subsection \<open>The operators\<close>

lemma Fin_plus: "a + b \<noteq> 0 \<Longrightarrow> Fin a + Fin b = fl (a + b)"
  by (simp add: plus_number_def)

lemma Fin_minus: "a \<noteq> b \<Longrightarrow> Fin a - Fin b = fl (a - b)"
  by (simp add: minus_number_def plus_number_def)

lemma Fin_minus_self [simp]: "Fin a - Fin a = Fin 0"
  by (simp add: minus_number_def plus_number_def signed_zero_def)

lemma Fin_times: "a \<noteq> 0 \<Longrightarrow> b \<noteq> 0 \<Longrightarrow> Fin a * Fin b = fl (a * b)"
  by (simp add: times_number_def)

lemma Fin_divide: "a \<noteq> 0 \<Longrightarrow> b \<noteq> 0 \<Longrightarrow> Fin a / Fin b = fl (a / b)"
  by (simp add: divide_number_def)

lemmas num_eval = Fin_plus Fin_minus Fin_times Fin_divide

lemma is_finite_not [simp]:
  "is_finite x \<Longrightarrow> x \<noteq> NaN" "is_finite x \<Longrightarrow> x \<noteq> PInf"
  "is_finite x \<Longrightarrow> x \<noteq> NInf"
  by (cases x; simp)+

lemma plus_eq_NaN:
  "x + y = NaN \<longleftrightarrow> x = NaN \<or> y = NaN \<or> (x = PInf \<and> y = NInf) \<or> (x = NInf \<and> y = PInf)"
  by (cases x; cases y) (simp_all add: plus_number_def signed_zero_def)

lemma uminus_eq_NaN [simp]: "- x = NaN \<longleftrightarrow> x = (NaN :: number)"
  by (cases x) simp_all

lemma is_finite_uminus [simp]: "is_finite (- x) = is_finite x"
  by (cases x) simp_all

lemma num_val_uminus [simp]: "num_val (- x) = - num_val x"
  by (cases x) simp_all

lemma minus_eq_NaN:
  "x - y = NaN \<longleftrightarrow> x = NaN \<or> y = NaN \<or> (x = PInf \<and> y = PInf) \<or> (x = NInf \<and> y = NInf)"
  by (cases x; cases y) (simp_all add: minus_number_def plus_number_def signed_zero_def)

lemma times_eq_NaN:
  "x * y = NaN \<longleftrightarrow> x = NaN \<or> y = NaN
     \<or> (\<not> is_finite x \<and> is_finite y \<and> num_val y = 0)
     \<or> (is_finite x \<and> num_val x = 0 \<and> \<not> is_finite y)"
  by (cases x; cases y) (simp_all add: times_number_def signed_zero_def signed_infinity_def)

lemma divide_eq_NaN:
  "x / y = NaN \<longleftrightarrow> x = NaN \<or> y = NaN
     \<or> (\<not> is_finite x \<and> \<not> is_finite y)
     \<or> (is_finite x \<and> is_finite y \<and> num_val x = 0 \<and> num_val y = 0)"
  by (cases x; cases y) (simp_all add: divide_number_def signed_zero_def signed_infinity_def)

lemma times_commute: "x * y = y * (x :: number)"
  by (cases x; cases y) (auto simp: times_number_def mult.commute)

lemma is_double_num_val_plus [simp]: "is_double (num_val (x + y))"
  by (cases x; cases y) (simp_all add: plus_number_def signed_zero_def)

lemma is_double_num_val_times [simp]: "is_double (num_val (x * y))"
  by (cases x; cases y) (simp_all add: times_number_def signed_zero_def signed_infinity_def)

lemma is_double_num_val_divide [simp]: "is_double (num_val (x / y))"
  by (cases x; cases y) (simp_all add: divide_number_def signed_zero_def signed_infinity_def)

lemma is_double_num_val_minus [simp]: "is_double (num_val (x - y))"
  by (simp add: minus_number_def)

text \<open>Finite operands: the value of the result is the rounded exact result, if that is in range.\<close>

lemma plus_finite:
  assumes "is_finite x" "is_finite y" "\<bar>num_val x + num_val y\<bar> \<le> b" "is_double b"
  shows "is_finite (x + y)" "num_val (x + y) = rnd (num_val x + num_val y)"
    "\<bar>num_val (x + y)\<bar> \<le> b"
  using fl_bounded[OF assms(3,4)] assms(1,2,3)
  by (auto simp: plus_number_def signed_zero_def)

lemma minus_finite:
  assumes "is_finite x" "is_finite y" "\<bar>num_val x - num_val y\<bar> \<le> b" "is_double b"
  shows "is_finite (x - y)" "num_val (x - y) = rnd (num_val x - num_val y)"
    "\<bar>num_val (x - y)\<bar> \<le> b"
  using plus_finite[of x "- y" b] assms by (simp_all add: minus_number_def)

lemma times_finite:
  assumes "is_finite x" "is_finite y" "\<bar>num_val x * num_val y\<bar> \<le> b" "is_double b"
  shows "is_finite (x * y)" "num_val (x * y) = rnd (num_val x * num_val y)"
    "\<bar>num_val (x * y)\<bar> \<le> b"
  using fl_bounded[OF assms(3,4)] assms(1,2,3)
  by (auto simp: times_number_def signed_zero_def)

lemma divide_finite:
  assumes "is_finite x" "is_finite y" "num_val y \<noteq> 0" "\<bar>num_val x / num_val y\<bar> \<le> b"
    "is_double b"
  shows "is_finite (x / y)" "num_val (x / y) = rnd (num_val x / num_val y)"
    "\<bar>num_val (x / y)\<bar> \<le> b"
  using fl_bounded[OF assms(4,5)] assms(1,2,3,4)
  by (auto simp: divide_number_def signed_zero_def)

subsection \<open>Comparison\<close>

lemma Fin_le_Fin [simp]: "(Fin a \<le> Fin b) = (a \<le> b)"
  by (simp add: less_eq_number_def)

lemma Fin_less_Fin [simp]: "(Fin a < Fin b) = (a < b)"
  by (simp add: less_number_def)

lemma NaN_le [simp]: "\<not> NaN \<le> x" "\<not> x \<le> NaN"
  by (simp_all add: less_eq_number_def)

lemma NaN_less [simp]: "\<not> NaN < x" "\<not> x < NaN"
  by (simp_all add: less_number_def)

lemma finite_le: "is_finite x \<Longrightarrow> is_finite y \<Longrightarrow> x \<le> y \<longleftrightarrow> num_val x \<le> num_val y"
  by (cases x; cases y) (simp_all add: less_eq_number_def)

lemma finite_less: "is_finite x \<Longrightarrow> is_finite y \<Longrightarrow> x < y \<longleftrightarrow> num_val x < num_val y"
  by (cases x; cases y) (simp_all add: less_number_def)

lemma Math_max_Fin [simp]: "Math_max (Fin a) (Fin b) = Fin (max a b)"
  by (simp add: Math_max_def max_def)

lemma Math_min_Fin [simp]: "Math_min (Fin a) (Fin b) = Fin (min a b)"
  by (simp add: Math_min_def min_def)

lemma clamp_range:
  assumes "x \<noteq> NaN" "lo \<le> hi"
  shows "Fin lo \<le> Math_max (Fin lo) (Math_min (Fin hi) x)"
    and "Math_max (Fin lo) (Math_min (Fin hi) x) \<le> Fin hi"
  using assms
  by (cases x; auto simp: Math_max_def Math_min_def less_number_def less_eq_number_def)+

lemma clamp_NaN: "Math_max lo (Math_min hi NaN) = NaN"
  by (simp add: Math_max_def Math_min_def)

lemma Math_max_eq_NaN: "Math_max x y = NaN \<longleftrightarrow> x = NaN \<or> y = NaN"
  by (auto simp: Math_max_def)

lemma Math_min_eq_NaN: "Math_min x y = NaN \<longleftrightarrow> x = NaN \<or> y = NaN"
  by (auto simp: Math_min_def)

subsection \<open>The logarithm\<close>

lemma log10_double_bound:
  assumes "is_double a" "0 < a"
  shows "\<bar>log 10 a\<bar> \<le> 324"
proof -
  have l: "log 10 ((10::real) ^ 324) = 324"
    by (subst log_nat_power) simp_all
  have "a < 2 ^ 1024"
    using is_double_less[OF assms(1)] by simp
  also have "(2::real) ^ 1024 \<le> 10 ^ 324" by simp
  finally have "log 10 a < log 10 (10 ^ 324)"
    using assms(2) by (subst log_less_cancel_iff) simp_all
  then have up: "log 10 a < 324"
    by (simp only: l)
  have "(1::real) / 10 ^ 324 \<le> 1 / 2 ^ 1074" by simp
  also have "\<dots> = 2 powi (- 1074)"
    by (simp add: power_int_minus inverse_eq_divide)
  also have "\<dots> \<le> \<bar>a\<bar>"
    using assms(2) by (intro is_double_min[OF assms(1)]) simp
  also have "\<dots> = a"
    using assms(2) by (simp only: abs_of_pos)
  finally have "log 10 (1 / 10 ^ 324) \<le> log 10 a"
    using assms(2) by (subst log_le_cancel_iff) simp_all
  moreover have "log 10 (1 / 10 ^ 324) = - log 10 ((10::real) ^ 324)"
    by (subst log_divide) simp_all
  ultimately have "- 324 \<le> log 10 a"
    by (simp only: l)
  then show ?thesis
    using up by simp
qed

lemma Math_log10_finite:
  assumes "\<forall>x. 0 < x \<longrightarrow> \<bar>lg x - log 10 x\<bar> \<le> 1" "is_double a" "0 < a"
  shows "is_finite (Math_log10 lg (Fin a))" "\<bar>num_val (Math_log10 lg (Fin a))\<bar> \<le> 325"
proof -
  have "\<bar>lg a - log 10 a\<bar> \<le> 1"
    using assms(1,3) by simp
  then have b: "\<bar>lg a\<bar> \<le> 325"
    using log10_double_bound[OF assms(2,3)] by linarith
  have d: "is_double 325" by simp
  show "is_finite (Math_log10 lg (Fin a))" "\<bar>num_val (Math_log10 lg (Fin a))\<bar> \<le> 325"
    using fl_bounded[OF b d] assms(3) by simp_all
qed

lemma Math_log10_not_NaN:
  "x \<noteq> NaN \<Longrightarrow> x \<noteq> NInf \<Longrightarrow> 0 \<le> num_val x \<Longrightarrow> Math_log10 lg x \<noteq> NaN"
  by (cases x) simp_all

subsection \<open>Order and the operators\<close>

lemma zero_le_iff: "Fin 0 \<le> x \<longleftrightarrow> x = PInf \<or> (is_finite x \<and> 0 \<le> num_val x)"
  by (cases x) (simp_all add: less_eq_number_def)

lemma le_finite_iff:
  "is_finite y \<Longrightarrow> y \<le> x \<longleftrightarrow> x = PInf \<or> (is_finite x \<and> num_val y \<le> num_val x)"
  by (cases x; cases y) (simp_all add: less_eq_number_def)

lemma le_PInf [simp]: "x \<le> PInf \<longleftrightarrow> x \<noteq> NaN"
  by (simp add: less_eq_number_def)

lemma le_not_NaN: "x \<le> y \<Longrightarrow> x \<noteq> NaN \<and> y \<noteq> NaN"
  by (auto simp: less_eq_number_def)

lemma minus_nonneg:
  assumes "is_finite y" "x \<noteq> NaN" "x \<noteq> NInf" "is_finite x \<longrightarrow> num_val y \<le> num_val x"
  shows "x - y \<noteq> NaN \<and> x - y \<noteq> NInf \<and> 0 \<le> num_val (x - y)"
proof (cases "is_finite x")
  case fx: True
  then have le: "0 \<le> num_val x - num_val y"
    using assms(4) by simp
  show ?thesis
  proof (cases "num_val x - num_val y = 0")
    case True
    then show ?thesis
      using assms(1) fx
      by (simp add: minus_number_def plus_number_def signed_zero_def)
  next
    case False
    then have "x - y = fl (num_val x - num_val y)"
      using assms(1) fx by (simp add: minus_number_def plus_number_def)
    then show ?thesis
      using fl_nonneg[OF le] by auto
  qed
next
  case False
  then have "x = PInf"
    using assms(2,3) by (cases x) simp_all
  then show ?thesis
    using assms(1) by (cases y) (simp_all add: minus_number_def plus_number_def)
qed

lemma plus_ge_double:
  assumes "is_double n" "n \<le> a + b"
  shows "Fin a + Fin b \<noteq> NaN \<and> Fin a + Fin b \<noteq> NInf
     \<and> (is_finite (Fin a + Fin b) \<longrightarrow> n \<le> num_val (Fin a + Fin b))"
proof (cases "a + b = 0")
  case True
  then show ?thesis
    using assms(2) by (simp add: plus_number_def signed_zero_def)
next
  case False
  have n: "n \<le> rnd (a + b)"
    by (rule rnd_ge_double[OF assms(2,1)])
  have "- (2 ^ 1024) < n"
    using is_double_less[OF assms(1)] by simp
  then have "fl (a + b) \<noteq> NInf"
    using n by (simp add: fl_NInf)
  moreover have "is_finite (fl (a + b)) \<longrightarrow> n \<le> num_val (fl (a + b))"
    using n by (simp add: num_val_fl)
  ultimately show ?thesis
    using False by (simp add: Fin_plus)
qed

lemma rnd_rel:
  assumes "0 \<le> x"
  shows "rnd x \<le> x * (1 + 1 / 2 ^ 52) + 1"
proof -
  define d where "d = x / 2 ^ 52"
  have d: "0 \<le> d"
    using assms by (simp add: d_def)
  have u0: "ulp x \<noteq> 0"
    using ulp_pos[of x] by linarith
  have "of_int (round_even (x / ulp x)) \<le> x / ulp x + 1 / 2"
    by (rule round_even_bounds)
  then have "of_int (round_even (x / ulp x)) * ulp x \<le> (x / ulp x + 1 / 2) * ulp x"
    by (intro mult_right_mono) simp_all
  also have "\<dots> = x + ulp x / 2"
    by (simp add: distrib_right u0)
  finally have r: "rnd x \<le> x + ulp x / 2"
    unfolding rnd_def .
  have "ulp x \<le> d + 1"
  proof (cases "- 1022 < expo x \<and> x \<noteq> 0")
    case True
    then have "2 powi expo x \<le> x"
      using expo_lower[of x] assms by simp
    then have "2 powi expo x / 2 ^ 52 \<le> x / 2 ^ 52"
      by (intro divide_right_mono) simp_all
    then have "ulp x \<le> d"
      by (simp add: ulp_def power_int_diff d_def)
    then show ?thesis by linarith
  next
    case False
    then have "x = 0 \<or> expo x = - 1022"
      using expo_ge[of x] by linarith
    moreover have "expo 0 = 0"
      by (simp add: expo_def log_def)
    ultimately have "expo x \<le> 0"
      by auto
    then have "ulp x \<le> 2 powi 0"
      unfolding ulp_def by (intro power_int_increasing) simp_all
    then have "ulp x \<le> 1" by simp
    then show ?thesis using d by linarith
  qed
  then have "rnd x \<le> x + d + 1"
    using r d by linarith
  also have "\<dots> = x * (1 + 1 / 2 ^ 52) + 1"
    by (simp add: d_def algebra_simps)
  finally show ?thesis .
qed

lemma times_finite_rnd:
  assumes "is_finite x" "is_finite y" "\<bar>rnd (num_val x * num_val y)\<bar> < 2 ^ 1024"
  shows "is_finite (x * y)" "num_val (x * y) = rnd (num_val x * num_val y)"
  using assms by (auto simp: times_number_def signed_zero_def is_finite_fl num_val_fl)

lemma times_infinite:
  assumes "is_finite x" "is_finite y" "0 \<le> num_val x * num_val y"
    "\<not> \<bar>rnd (num_val x * num_val y)\<bar> < 2 ^ 1024"
  shows "x * y = PInf"
proof -
  have "num_val x * num_val y \<noteq> 0"
    using assms(4) by auto
  then have "x * y = fl (num_val x * num_val y)"
    using assms(1,2) by (simp add: times_number_def)
  moreover have "0 \<le> rnd (num_val x * num_val y)"
    using assms(3) by (rule rnd_nonneg)
  ultimately show ?thesis
    using assms(4) by (simp add: fl_PInf)
qed

text \<open>Multiplication by a number that is not negative keeps the order.\<close>

lemma times_mono:
  assumes "Fin 0 \<le> a" "a \<le> b" "is_finite z" "0 \<le> num_val z"
    and "\<not> is_finite b \<longrightarrow> 0 < num_val z"
  shows "Fin 0 \<le> a * z \<and> a * z \<le> b * z"
proof (cases "is_finite b")
  case False
  then have b: "b = PInf"
    using assms(1,2) by (cases b) (auto simp: less_eq_number_def)
  then have z: "0 < num_val z" using assms(5) by simp
  have bz: "b * z = PInf"
    using z assms(3) by (cases z) (simp_all add: b times_number_def signed_infinity_def)
  show ?thesis
  proof (cases "is_finite a")
    case False
    then have "a = PInf"
      using assms(1) by (simp add: zero_le_iff)
    then show ?thesis
      using bz b by simp
  next
    case fa: True
    then have a: "0 \<le> num_val a"
      using assms(1) by (simp add: zero_le_iff)
    then have nn: "0 \<le> num_val a * num_val z"
      using assms(4) by simp
    show ?thesis
    proof (cases "\<bar>rnd (num_val a * num_val z)\<bar> < 2 ^ 1024")
      case True
      have "is_finite (a * z)" "num_val (a * z) = rnd (num_val a * num_val z)"
        using times_finite_rnd[OF fa assms(3) True] by simp_all
      then show ?thesis
        using rnd_nonneg[OF nn] bz by (simp add: zero_le_iff)
    next
      case False
      have "a * z = PInf"
        by (rule times_infinite[OF fa assms(3) nn False])
      then show ?thesis
        using bz by simp
    qed
  qed
next
  case True
  then have fa: "is_finite a" and le: "num_val a \<le> num_val b"
    using assms(1,2) by (auto simp: zero_le_iff le_finite_iff less_eq_number_def)
  have a: "0 \<le> num_val a"
    using assms(1) fa by (simp add: zero_le_iff)
  have nna: "0 \<le> num_val a * num_val z" and nnb: "0 \<le> num_val b * num_val z"
    using a le assms(4) by simp_all
  have m: "rnd (num_val a * num_val z) \<le> rnd (num_val b * num_val z)"
    using le assms(4) by (intro rnd_mono mult_right_mono)
  show ?thesis
  proof (cases "\<bar>rnd (num_val b * num_val z)\<bar> < 2 ^ 1024")
    case False
    have bz: "b * z = PInf"
      by (rule times_infinite[OF True assms(3) nnb False])
    show ?thesis
    proof (cases "\<bar>rnd (num_val a * num_val z)\<bar> < 2 ^ 1024")
      case True
      have "is_finite (a * z)" "num_val (a * z) = rnd (num_val a * num_val z)"
        using times_finite_rnd[OF fa assms(3) True] by simp_all
      then show ?thesis
        using rnd_nonneg[OF nna] bz by (simp add: zero_le_iff)
    next
      case False
      have "a * z = PInf"
        by (rule times_infinite[OF fa assms(3) nna False])
      then show ?thesis
        using bz by simp
    qed
  next
    case fb: True
    have fa': "\<bar>rnd (num_val a * num_val z)\<bar> < 2 ^ 1024"
      using fb m rnd_nonneg[OF nna] rnd_nonneg[OF nnb] by simp
    have "is_finite (a * z)" "num_val (a * z) = rnd (num_val a * num_val z)"
      using times_finite_rnd[OF fa assms(3) fa'] by simp_all
    moreover have "is_finite (b * z)" "num_val (b * z) = rnd (num_val b * num_val z)"
      using times_finite_rnd[OF True assms(3) fb] by simp_all
    ultimately show ?thesis
      using m rnd_nonneg[OF nna] by (simp add: zero_le_iff le_finite_iff)
  qed
qed

lemma Math_max_mono:
  assumes "a \<le> b" "c \<le> d"
  shows "Math_max a (Fin c) \<le> Math_max b (Fin d)"
  using assms
  by (cases a; cases b) (auto simp: Math_max_def less_eq_number_def less_number_def)

lemma Math_max_finite: "is_finite a \<Longrightarrow> is_finite (Math_max a (Fin c))"
  by (cases a) (auto simp: Math_max_def)

lemma Math_max_ge: "a \<noteq> NaN \<Longrightarrow> Fin c \<le> Math_max a (Fin c)"
  by (cases a) (auto simp: Math_max_def less_eq_number_def less_number_def)

lemma is_double_num_val_Math_max:
  "is_double (num_val a) \<Longrightarrow> is_double (num_val b) \<Longrightarrow> is_double (num_val (Math_max a b))"
  by (auto simp: Math_max_def)

lemma minus_nonneg_le:
  assumes "is_finite y" "y \<le> x"
  shows "x - y \<noteq> NaN \<and> x - y \<noteq> NInf \<and> 0 \<le> num_val (x - y)"
  using assms by (intro minus_nonneg) (auto simp: le_finite_iff)

lemma le_plus:
  assumes "is_finite n" "is_double (num_val n)" "n \<le> a" "Fin 0 \<le> b"
  shows "n \<le> a + b"
proof (cases "is_finite a \<and> is_finite b")
  case False
  then have "a + b = PInf"
    using assms(1,3,4)
    by (cases a; cases b) (simp_all add: zero_le_iff le_finite_iff plus_number_def)
  then show ?thesis
    using assms(1) by simp
next
  case True
  then have le: "num_val n \<le> num_val a + num_val b"
    using assms(1,3,4) by (simp add: zero_le_iff le_finite_iff)
  show ?thesis
  proof (cases "num_val a + num_val b = 0")
    case z: True
    then show ?thesis
      using True le assms(1)
      by (simp add: plus_number_def signed_zero_def le_finite_iff)
  next
    case False
    then have s: "a + b = fl (num_val a + num_val b)"
      using True by (simp add: plus_number_def)
    have n: "num_val n \<le> rnd (num_val a + num_val b)"
      by (rule rnd_ge_double[OF le assms(2)])
    have "- (2 ^ 1024) < num_val n"
      using is_double_less[OF assms(2)] by simp
    then have "fl (num_val a + num_val b) \<noteq> NInf"
      using n by (simp add: fl_NInf)
    then have "fl (num_val a + num_val b) = PInf
        \<or> (is_finite (fl (num_val a + num_val b))
           \<and> num_val (fl (num_val a + num_val b)) = rnd (num_val a + num_val b))"
      using num_val_fl[of "num_val a + num_val b"]
      by (cases "fl (num_val a + num_val b)") simp_all
    then show ?thesis
      using n assms(1) unfolding s by (auto simp: le_finite_iff)
  qed
qed

text \<open>Below half of the smallest positive number the rounding gives zero.\<close>

lemma fl_tiny:
  assumes "0 < r" "r < 2 powi (- 1075)"
  shows "fl r = Fin 0"
proof -
  have r0: "r \<noteq> 0" using assms(1) by simp
  have "2 powi \<lfloor>log 2 \<bar>r\<bar>\<rfloor> \<le> \<bar>r\<bar>"
    by (rule log2_bounds(1)[OF r0])
  then have lt: "2 powi \<lfloor>log 2 \<bar>r\<bar>\<rfloor> < (2::real) powi (- 1075)"
    using assms by simp
  have "\<lfloor>log 2 \<bar>r\<bar>\<rfloor> < - 1075"
  proof (rule ccontr)
    assume "\<not> \<lfloor>log 2 \<bar>r\<bar>\<rfloor> < - 1075"
    then have "(2::real) powi (- 1075) \<le> 2 powi \<lfloor>log 2 \<bar>r\<bar>\<rfloor>"
      by (intro power_int_increasing) simp_all
    then show False using lt by simp
  qed
  then have e: "expo r = - 1022"
    by (simp add: expo_def)
  have u: "ulp r = 2 powi (- 1074)"
    by (simp add: ulp_def e)
  have "r / 2 powi (- 1074) < 2 powi (- 1075) / 2 powi (- 1074)"
    using assms(2) by (intro divide_strict_right_mono) simp_all
  also have "\<dots> = 1 / 2"
    by (simp add: power_int_minus field_simps)
  finally have "\<bar>r / 2 powi (- 1074) - of_int 0\<bar> < 1 / 2"
    using assms(1) by simp
  then have "round_even (r / 2 powi (- 1074)) = 0"
    by (rule round_even_near)
  then have "rnd r = 0"
    by (simp add: rnd_def u)
  then show ?thesis
    using assms(1) by (simp add: fl_def signed_zero_def)
qed

subsection \<open>The literals of the source and the worked examples, rounded\<close>

text \<open>
  The binary64 value of every decimal literal of the source (the literal is written as the
  fraction in lowest terms that the simplifier makes of it: \<open>lit (3 / 10)\<close> is \<open>0.3\<close>),
  and the roundings that occur in the worked examples below: the fixed landmarks
  (\<open>mock\<close>), the two nutrition profiles (\<open>ex_maintain\<close>, \<open>ex_lose_fat\<close>), the sum
  \<open>50 + 81.2\<close> (\<open>ex_zero\<close>) and the fixed landmarks at 170 cm (\<open>ex_h170\<close>). Each value
  is the nearest multiple of \<open>2^(e - 52)\<close>, with \<open>e\<close> the exponent of the number and
  \<open>m\<close> the multiple; in two cases the number lies halfway and the even multiple is
  taken.
\<close>

lemma lit_0_3: "lit (3 / 10) = Fin (5404319552844595 / 18014398509481984)"
  unfolding lit_def by (rule fl_eval[where e = "- 2" and m = 5404319552844595]) simp_all

lemma lit_1_0324: "lit (2581 / 2500) = Fin (1162379063824325 / 1125899906842624)"
  unfolding lit_def by (rule fl_eval[where e = 0 and m = 4649516255297300]) simp_all

lemma lit_0_19077: "lit (19077 / 100000) = Fin (1718303401826939 / 9007199254740992)"
  unfolding lit_def by (rule fl_eval[where e = "- 3" and m = 6873213607307756]) simp_all

lemma lit_0_15456: "lit (483 / 3125) = Fin (5568610867251071 / 36028797018963968)"
  unfolding lit_def by (rule fl_eval[where e = "- 3" and m = 5568610867251071]) simp_all

lemma lit_1_29579: "lit (129579 / 100000) = Fin (5835719361150415 / 4503599627370496)"
  unfolding lit_def by (rule fl_eval[where e = 0 and m = 5835719361150415]) simp_all

lemma lit_0_35004: "lit (8751 / 25000) = Fin (3152880027129537 / 9007199254740992)"
  unfolding lit_def by (rule fl_eval[where e = "- 2" and m = 6305760054259074]) simp_all

lemma lit_0_221: "lit (221 / 1000) = Fin (7962364141191037 / 36028797018963968)"
  unfolding lit_def by (rule fl_eval[where e = "- 3" and m = 7962364141191037]) simp_all

lemma lit_0_2: "lit (1 / 5) = Fin (3602879701896397 / 18014398509481984)"
  unfolding lit_def by (rule fl_eval[where e = "- 3" and m = 7205759403792794]) simp_all

lemma lit_0_7: "lit (7 / 10) = Fin (3152519739159347 / 4503599627370496)"
  unfolding lit_def by (rule fl_eval[where e = "- 1" and m = 6305039478318694]) simp_all

lemma lit_0_35: "lit (7 / 20) = Fin (3152519739159347 / 9007199254740992)"
  unfolding lit_def by (rule fl_eval[where e = "- 2" and m = 6305039478318694]) simp_all

lemma lit_0_5: "lit (1 / 2) = Fin (1 / 2)"
  unfolding lit_def by (rule fl_eval[where e = "- 1" and m = 4503599627370496]) simp_all

lemma lit_0_65: "lit (13 / 20) = Fin (5854679515581645 / 9007199254740992)"
  unfolding lit_def by (rule fl_eval[where e = "- 1" and m = 5854679515581645]) simp_all

lemma lit_0_4: "lit (2 / 5) = Fin (3602879701896397 / 9007199254740992)"
  unfolding lit_def by (rule fl_eval[where e = "- 2" and m = 7205759403792794]) simp_all

lemma lit_0_6: "lit (3 / 5) = Fin (5404319552844595 / 9007199254740992)"
  unfolding lit_def by (rule fl_eval[where e = "- 1" and m = 5404319552844595]) simp_all

lemma lit_0_9: "lit (9 / 10) = Fin (8106479329266893 / 9007199254740992)"
  unfolding lit_def by (rule fl_eval[where e = "- 1" and m = 8106479329266893]) simp_all

lemma lit_0_45: "lit (9 / 20) = Fin (8106479329266893 / 18014398509481984)"
  unfolding lit_def by (rule fl_eval[where e = "- 2" and m = 8106479329266893]) simp_all

lemma lit_0_15: "lit (3 / 20) = Fin (5404319552844595 / 36028797018963968)"
  unfolding lit_def by (rule fl_eval[where e = "- 3" and m = 5404319552844595]) simp_all

lemma lit_0_55: "lit (11 / 20) = Fin (2476979795053773 / 4503599627370496)"
  unfolding lit_def by (rule fl_eval[where e = "- 1" and m = 4953959590107546]) simp_all

lemma lit_0_85: "lit (17 / 20) = Fin (7656119366529843 / 9007199254740992)"
  unfolding lit_def by (rule fl_eval[where e = "- 1" and m = 7656119366529843]) simp_all

lemma lit_6_25: "lit (25 / 4) = Fin (25 / 4)"
  unfolding lit_def by (rule fl_eval[where e = 2 and m = 7036874417766400]) simp_all

lemma lit_1_2: "lit (6 / 5) = Fin (5404319552844595 / 4503599627370496)"
  unfolding lit_def by (rule fl_eval[where e = 0 and m = 5404319552844595]) simp_all

lemma lit_1_375: "lit (11 / 8) = Fin (11 / 8)"
  unfolding lit_def by (rule fl_eval[where e = 0 and m = 6192449487634432]) simp_all

lemma lit_1_55: "lit (31 / 20) = Fin (6980579422424269 / 4503599627370496)"
  unfolding lit_def by (rule fl_eval[where e = 0 and m = 6980579422424269]) simp_all

lemma lit_1_725: "lit (69 / 40) = Fin (3884354678607053 / 2251799813685248)"
  unfolding lit_def by (rule fl_eval[where e = 0 and m = 7768709357214106]) simp_all

lemma lit_1_9: "lit (19 / 10) = Fin (4278419646001971 / 2251799813685248)"
  unfolding lit_def by (rule fl_eval[where e = 0 and m = 8556839292003942]) simp_all

lemma lit_2_2: "lit (11 / 5) = Fin (2476979795053773 / 1125899906842624)"
  unfolding lit_def by (rule fl_eval[where e = 1 and m = 4953959590107546]) simp_all

lemma lit_0_25: "lit (1 / 4) = Fin (1 / 4)"
  unfolding lit_def by (rule fl_eval[where e = "- 2" and m = 4503599627370496]) simp_all

lemma lit_1_6: "lit (8 / 5) = Fin (3602879701896397 / 2251799813685248)"
  unfolding lit_def by (rule fl_eval[where e = 0 and m = 7205759403792794]) simp_all

lemma lit_numeral [simp]: "numeral n < (2::int) ^ 53 \<Longrightarrow> lit (numeral n) = Fin (numeral n)"
  by (simp add: lit_def)

lemmas lit_evals =
  lit_0_3 lit_1_0324 lit_0_19077 lit_0_15456 lit_1_29579 lit_0_35004 lit_0_221 lit_0_2
  lit_0_7 lit_0_35 lit_0_5 lit_0_65 lit_0_4 lit_0_6 lit_0_9 lit_0_45
  lit_0_15 lit_0_55 lit_0_85 lit_6_25 lit_1_2 lit_1_375 lit_1_55 lit_1_725
  lit_1_9 lit_2_2 lit_0_25 lit_1_6

lemma mock_1: "fl (- (7205759403792793 / 18014398509481984)) = Fin (- (7205759403792793 / 18014398509481984))"
  by (rule fl_eval[where e = "- 2" and m = "- 7205759403792793"]) simp_all

lemma mock_2: "fl (- (1351079888211149 / 4503599627370496)) = Fin (- (1351079888211149 / 4503599627370496))"
  by (rule fl_eval[where e = "- 2" and m = "- 5404319552844596"]) simp_all

lemma mock_3: "fl (12610078956637389 / 18014398509481984) = Fin (3152519739159347 / 4503599627370496)"
  by (rule fl_eval_tie[where e = "- 1" and f = 6305039478318694]) simp_all

lemma mock_4: "fl (48677783048764001811713999293645 / 316912650057057350374175801344) = Fin (2702159776422297 / 17592186044416)"
  by (rule fl_eval[where e = 7 and m = 5404319552844594]) simp_all

lemma mock_5: "fl (6755399441055745 / 17592186044416) = Fin (6755399441055745 / 17592186044416)"
  by (rule fl_eval[where e = 8 and m = 6755399441055745]) simp_all

lemma mock_6: "fl (141863388262170615 / 281474976710656) = Fin (8866461766385663 / 17592186044416)"
  by (rule fl_eval[where e = 8 and m = 8866461766385663]) simp_all

lemma mock_7: "fl (36028797018963965 / 70368744177664) = Fin (9007199254740991 / 17592186044416)"
  by (rule fl_eval[where e = 8 and m = 9007199254740991]) simp_all

lemmas mock_evals =
  mock_1 mock_2 mock_3 mock_4 mock_5 mock_6
  mock_7

lemma ex_maintain_1: "fl (735096823943441 / 8796093022208) = Fin (735096823943441 / 8796093022208)"
  by (rule fl_eval[where e = 6 and m = 5880774591547528]) simp_all

lemma ex_maintain_2: "fl (126100789566373895 / 1125899906842624) = Fin 112"
  by (rule fl_eval[where e = 6 and m = 7881299347898368]) simp_all

lemma ex_maintain_3: "fl (8821161887321293 / 35184372088832) = Fin (8821161887321293 / 35184372088832)"
  by (rule fl_eval[where e = 7 and m = 8821161887321293]) simp_all

lemma ex_maintain_4: "fl (108394437271404041915 / 144115188075855872) = Fin (6615871415490969 / 8796093022208)"
  by (rule fl_eval[where e = 9 and m = 6615871415490969]) simp_all

lemma ex_maintain_5: "fl (72262958180936034629 / 72057594037927936) = Fin (8821161887321293 / 8796093022208)"
  by (rule fl_eval[where e = 9 and m = 8821161887321293]) simp_all

lemma ex_maintain_6: "fl (2125 / 2) = Fin (2125 / 2)"
  by (rule fl_eval[where e = 10 and m = 4672924418048000]) simp_all

lemma ex_maintain_7: "fl (3225 / 2) = Fin (3225 / 2)"
  by (rule fl_eval[where e = 10 and m = 7091849999155200]) simp_all

lemma ex_maintain_8: "fl (3235 / 2) = Fin (3235 / 2)"
  by (rule fl_eval[where e = 10 and m = 7113840231710720]) simp_all

lemma ex_maintain_9: "fl (3525 / 2) = Fin (3525 / 2)"
  by (rule fl_eval[where e = 10 and m = 7751556975820800]) simp_all

lemma ex_maintain_10: "fl (22582174431542510215 / 9007199254740992) = Fin (20057 / 8)"
  by (rule fl_eval[where e = 11 and m = 5513226179575808]) simp_all

lemmas ex_maintain =
  ex_maintain_1 ex_maintain_2 ex_maintain_3 ex_maintain_4 ex_maintain_5 ex_maintain_6
  ex_maintain_7 ex_maintain_8 ex_maintain_9 ex_maintain_10

lemma ex_lose_fat_1: "fl (730 / 9) = Fin (2853843513871929 / 35184372088832)"
  by (rule fl_eval[where e = 6 and m = 5707687027743858]) simp_all

lemma ex_lose_fat_2: "fl (86694292826882055 / 562949953421312) = Fin 154"
  by (rule fl_eval[where e = 7 and m = 5418393301680128]) simp_all

lemma ex_lose_fat_3: "fl (8989607068696575 / 35184372088832) = Fin (8989607068696575 / 35184372088832)"
  by (rule fl_eval[where e = 7 and m = 8989607068696575]) simp_all

lemma ex_lose_fat_4: "fl (1150669704793161655 / 1125899906842624) = Fin (8989607068696575 / 8796093022208)"
  by (rule fl_eval[where e = 9 and m = 8989607068696575]) simp_all

lemma ex_lose_fat_5: "fl (962644420350443475 / 281474976710656) = Fin 3420"
  by (rule fl_eval[where e = 11 and m = 7520659533987840]) simp_all

lemmas ex_lose_fat =
  ex_lose_fat_1 ex_lose_fat_2 ex_lose_fat_3 ex_lose_fat_4 ex_lose_fat_5

lemma lit_81_2: "lit (406 / 5) = Fin (5713942027226317 / 70368744177664)"
  unfolding lit_def by (rule fl_eval[where e = 6 and m = 5713942027226317]) simp_all

lemma lit_131_2: "lit (656 / 5) = Fin (2308094809027379 / 17592186044416)"
  unfolding lit_def by (rule fl_eval[where e = 7 and m = 4616189618054758]) simp_all

lemma ex_zero_1: "fl (9232379236109517 / 70368744177664) = Fin (2308094809027379 / 17592186044416)"
  by (rule fl_eval_tie[where e = 7 and f = 4616189618054758]) simp_all

lemmas ex_zero =
  lit_81_2 lit_131_2 ex_zero_1

lemma ex_h170_1: "fl (2990671627550720 / 8866461766385663) = Fin (3038142605765811 / 9007199254740992)"
  by (rule fl_eval[where e = "- 2" and m = 6076285211531622]) simp_all

lemma ex_h170_2: "fl (8209546744335198668205420687867 / 158456325028528675187087900672) = Fin (7291542253837945 / 140737488355328)"
  by (rule fl_eval[where e = 5 and m = 7291542253837945]) simp_all

lemma ex_h170_3: "fl (20523866860838004265870066134195 / 158456325028528675187087900672) = Fin (4557213908648717 / 35184372088832)"
  by (rule fl_eval[where e = 7 and m = 4557213908648717]) simp_all

lemma ex_h170_4: "fl (6447762935326366108849848894475 / 39614081257132168796771975168) = Fin (5726763894499213 / 35184372088832)"
  by (rule fl_eval[where e = 7 and m = 5726763894499213]) simp_all

lemma ex_h170_5: "fl (4029851834578980033915769188935 / 9903520314283042199192993792) = Fin (3579227434062009 / 8796093022208)"
  by (rule fl_eval[where e = 8 and m = 7158454868124018]) simp_all

lemmas ex_h170 =
  ex_h170_1 ex_h170_2 ex_h170_3 ex_h170_4 ex_h170_5

section \<open>The body-fat formula\<close>

text \<open>
  The quotient \<open>495 / (c1 - c2 * L1 + c3 * L2) - 450\<close> is a number (not \<open>NaN\<close>) when
  the logarithm \<open>L1\<close> is one and the logarithm \<open>L2\<close> of the height is finite: the only
  way to \<open>NaN\<close> would be \<open>Infinity - Infinity\<close> in the denominator.
\<close>

lemma navy_not_NaN:
  assumes "is_finite c1" "is_finite c2" "num_val c2 \<noteq> 0" "is_finite c3" "\<bar>num_val c3\<bar> \<le> 1"
    and "L1 \<noteq> NaN" "is_finite L2" "\<bar>num_val L2\<bar> \<le> 325"
  shows "Fin 495 / (c1 - c2 * L1 + c3 * L2) - Fin 450 \<noteq> NaN"
proof -
  have "\<bar>num_val c3 * num_val L2\<bar> \<le> 1 * 325"
    unfolding abs_mult using assms(5,8) by (intro mult_mono) simp_all
  then have "\<bar>num_val c3 * num_val L2\<bar> \<le> 325" by simp
  then have t: "is_finite (c3 * L2)"
    using assms(4,7) by (intro times_finite(1)[where b = 325]) simp_all
  have p: "c2 * L1 \<noteq> NaN"
    using assms(2,3,6) by (auto simp: times_eq_NaN)
  have s: "c1 - c2 * L1 \<noteq> NaN"
    using assms(1) p by (auto simp: minus_eq_NaN)
  have d: "c1 - c2 * L1 + c3 * L2 \<noteq> NaN"
    using s t by (auto simp: plus_eq_NaN)
  have q: "Fin 495 / (c1 - c2 * L1 + c3 * L2) \<noteq> NaN"
    using d by (auto simp: divide_eq_NaN)
  show ?thesis
    using q by (auto simp: minus_eq_NaN)
qed

text \<open>
  The two branches of \<open>calculateBodyFatPercentage\<close>, for any waist and neck whose
  difference (with the hip added, for the female branch) is a number that is not negative.
\<close>

lemma male_body_fat:
  assumes "\<forall>x. 0 < x \<longrightarrow> \<bar>lg x - log 10 x\<bar> \<le> 1"
    and "sex m = ''male''" "height m = Fin h" "0 < h" "is_double h"
    and "waist m - neck m \<noteq> NaN" "waist m - neck m \<noteq> NInf" "0 \<le> num_val (waist m - neck m)"
  shows "\<exists>r. calculateBodyFatPercentage lg m = Inr r
     \<and> r = Math_max (Fin 3) (Math_min (Fin 50)
              (Fin 495 / (lit 1.0324 - lit 0.19077 * Math_log10 lg (waist m - neck m)
                            + lit 0.15456 * Math_log10 lg (Fin h)) - Fin 450))
     \<and> Fin 3 \<le> r \<and> r \<le> Fin 50"
proof -
  let ?x = "Fin 495 / (lit 1.0324 - lit 0.19077 * Math_log10 lg (waist m - neck m)
                         + lit 0.15456 * Math_log10 lg (Fin h)) - Fin 450"
  have "Math_log10 lg (waist m - neck m) \<noteq> NaN"
    using assms(6,7,8) by (rule Math_log10_not_NaN)
  then have "?x \<noteq> NaN"
    using Math_log10_finite[OF assms(1,5,4)]
    by (intro navy_not_NaN) (simp_all add: lit_evals)
  then have "Fin 3 \<le> Math_max (Fin 3) (Math_min (Fin 50) ?x)"
    "Math_max (Fin 3) (Math_min (Fin 50) ?x) \<le> Fin 50"
    by (simp_all add: clamp_range)
  moreover have "calculateBodyFatPercentage lg m = Inr (Math_max (Fin 3) (Math_min (Fin 50) ?x))"
    using assms(2,3) by (simp add: calculateBodyFatPercentage_def Let_def)
  ultimately show ?thesis by simp
qed

lemma female_body_fat:
  assumes "\<forall>x. 0 < x \<longrightarrow> \<bar>lg x - log 10 x\<bar> \<le> 1"
    and "sex m \<noteq> ''male''" "height m = Fin h" "0 < h" "is_double h"
    and "hip m = Some p" "truthy p"
    and "waist m + p - neck m \<noteq> NaN" "waist m + p - neck m \<noteq> NInf"
      "0 \<le> num_val (waist m + p - neck m)"
  shows "\<exists>r. calculateBodyFatPercentage lg m = Inr r
     \<and> r = Math_max (Fin 8) (Math_min (Fin 50)
              (Fin 495 / (lit 1.29579 - lit 0.35004 * Math_log10 lg (waist m + p - neck m)
                            + lit 0.22100 * Math_log10 lg (Fin h)) - Fin 450))
     \<and> Fin 8 \<le> r \<and> r \<le> Fin 50"
proof -
  let ?x = "Fin 495 / (lit 1.29579 - lit 0.35004 * Math_log10 lg (waist m + p - neck m)
                         + lit 0.22100 * Math_log10 lg (Fin h)) - Fin 450"
  have "Math_log10 lg (waist m + p - neck m) \<noteq> NaN"
    using assms(8,9,10) by (rule Math_log10_not_NaN)
  then have "?x \<noteq> NaN"
    using Math_log10_finite[OF assms(1,5,4)]
    by (intro navy_not_NaN) (simp_all add: lit_evals)
  then have "Fin 8 \<le> Math_max (Fin 8) (Math_min (Fin 50) ?x)"
    "Math_max (Fin 8) (Math_min (Fin 50) ?x) \<le> Fin 50"
    by (simp_all add: clamp_range)
  moreover have "calculateBodyFatPercentage lg m = Inr (Math_max (Fin 8) (Math_min (Fin 50) ?x))"
    using assms(2,3,6,7) by (simp add: calculateBodyFatPercentage_def Let_def)
  ultimately show ?thesis by simp
qed

text \<open>
  C1. The measurements are binary64 numbers in centimetres and \<open>lg\<close> is the platform's
  logarithm, within 1 of the true one. For a male input with \<open>waist > neck\<close> and a
  height above zero, \<open>calculateBodyFatPercentage\<close> returns
  \<open>495 / (1.0324 - 0.19077 log10(waist - neck) + 0.15456 log10(height)) - 450\<close> clamped
  to \<open>[3, 50]\<close>, and the result lies in \<open>[3, 50]\<close>. For a female input with a hip value
  that is present and not zero, \<open>waist + hip > neck\<close> and a height above zero it returns
  \<open>495 / (1.29579 - 0.35004 log10(waist + hip - neck) + 0.22100 log10(height)) - 450\<close>
  clamped to \<open>[8, 50]\<close>, and the result lies in \<open>[8, 50]\<close>. The formula is computed in
  binary64 as the source writes it. Where the rounded difference is zero although
  \<open>waist + hip > neck\<close>, or the denominator is zero, the quotient is infinite and the
  clamp gives the nearer bound.
\<close>

theorem body_fat_formula_clamped:
  assumes "\<forall>x. 0 < x \<longrightarrow> \<bar>lg x - log 10 x\<bar> \<le> 1"
    and "waist m = Fin w" "neck m = Fin n" "is_double n"
    and "height m = Fin h" "is_double h" "0 < h"
  shows "(sex m = ''male'' \<and> n < w \<longrightarrow>
            (\<exists>r. calculateBodyFatPercentage lg m = Inr r
               \<and> r = Math_max (Fin 3) (Math_min (Fin 50)
                        (Fin 495 / (lit 1.0324 - lit 0.19077 * Math_log10 lg (Fin w - Fin n)
                                      + lit 0.15456 * Math_log10 lg (Fin h)) - Fin 450))
               \<and> Fin 3 \<le> r \<and> r \<le> Fin 50))
       \<and> (sex m = ''female'' \<and> hip m = Some (Fin p) \<and> p \<noteq> 0 \<and> n < w + p \<longrightarrow>
            (\<exists>r. calculateBodyFatPercentage lg m = Inr r
               \<and> r = Math_max (Fin 8) (Math_min (Fin 50)
                        (Fin 495 / (lit 1.29579
                                      - lit 0.35004 * Math_log10 lg (Fin w + Fin p - Fin n)
                                      + lit 0.22100 * Math_log10 lg (Fin h)) - Fin 450))
               \<and> Fin 8 \<le> r \<and> r \<le> Fin 50))"
proof (intro conjI impI)
  assume male: "sex m = ''male'' \<and> n < w"
  have "waist m - neck m \<noteq> NaN \<and> waist m - neck m \<noteq> NInf \<and> 0 \<le> num_val (waist m - neck m)"
    using male by (intro minus_nonneg) (simp_all add: assms(2,3))
  then show "\<exists>r. calculateBodyFatPercentage lg m = Inr r
               \<and> r = Math_max (Fin 3) (Math_min (Fin 50)
                        (Fin 495 / (lit 1.0324 - lit 0.19077 * Math_log10 lg (Fin w - Fin n)
                                      + lit 0.15456 * Math_log10 lg (Fin h)) - Fin 450))
               \<and> Fin 3 \<le> r \<and> r \<le> Fin 50"
    using male_body_fat[where m = m and lg = lg and h = h] male assms(1,5,6,7)
    by (simp add: assms(2,3))
next
  assume female: "sex m = ''female'' \<and> hip m = Some (Fin p) \<and> p \<noteq> 0 \<and> n < w + p"
  have s: "Fin w + Fin p \<noteq> NaN \<and> Fin w + Fin p \<noteq> NInf
     \<and> (is_finite (Fin w + Fin p) \<longrightarrow> n \<le> num_val (Fin w + Fin p))"
    using female by (intro plus_ge_double assms(4)) simp
  have "Fin w + Fin p - Fin n \<noteq> NaN \<and> Fin w + Fin p - Fin n \<noteq> NInf
     \<and> 0 \<le> num_val (Fin w + Fin p - Fin n)"
    using s by (intro minus_nonneg) simp_all
  then show "\<exists>r. calculateBodyFatPercentage lg m = Inr r
               \<and> r = Math_max (Fin 8) (Math_min (Fin 50)
                        (Fin 495 / (lit 1.29579
                                      - lit 0.35004 * Math_log10 lg (Fin w + Fin p - Fin n)
                                      + lit 0.22100 * Math_log10 lg (Fin h)) - Fin 450))
               \<and> Fin 8 \<le> r \<and> r \<le> Fin 50"
    using female_body_fat[where m = m and lg = lg and h = h and p = "Fin p"] female
      assms(1,5,6,7)
    by (simp add: assms(2,3) truthy_def)
qed

theorem body_fat_formula_clamped_witness:
  "(\<exists>r. calculateBodyFatPercentage (log 10)
          \<lparr>waist = Fin 90, neck = Fin 40, hip = None,
           height = Fin 180, weight = Fin 80, age = Fin 30, sex = ''male''\<rparr> = Inr r
        \<and> Fin 3 \<le> r \<and> r \<le> Fin 50)
   \<and> (\<exists>r. calculateBodyFatPercentage (log 10)
          \<lparr>waist = Fin 70, neck = Fin 32, hip = Some (Fin 95),
           height = Fin 165, weight = Fin 60, age = Fin 30, sex = ''female''\<rparr> = Inr r
        \<and> Fin 8 \<le> r \<and> r \<le> Fin 50)"
proof
  show "\<exists>r. calculateBodyFatPercentage (log 10)
          \<lparr>waist = Fin 90, neck = Fin 40, hip = None,
           height = Fin 180, weight = Fin 80, age = Fin 30, sex = ''male''\<rparr> = Inr r
        \<and> Fin 3 \<le> r \<and> r \<le> Fin 50"
    using body_fat_formula_clamped
      [where m = "\<lparr>waist = Fin 90, neck = Fin 40, hip = None,
           height = Fin 180, weight = Fin 80, age = Fin 30, sex = ''male''\<rparr>"
        and lg = "log 10" and w = 90 and n = 40 and h = 180 and p = 0]
    by simp
  show "\<exists>r. calculateBodyFatPercentage (log 10)
          \<lparr>waist = Fin 70, neck = Fin 32, hip = Some (Fin 95),
           height = Fin 165, weight = Fin 60, age = Fin 30, sex = ''female''\<rparr> = Inr r
        \<and> Fin 8 \<le> r \<and> r \<le> Fin 50"
    using body_fat_formula_clamped
      [where m = "\<lparr>waist = Fin 70, neck = Fin 32, hip = Some (Fin 95),
           height = Fin 165, weight = Fin 60, age = Fin 30, sex = ''female''\<rparr>"
        and lg = "log 10" and w = 70 and n = 32 and h = 165 and p = 95]
    by simp
qed

text \<open>
  An input where the rounding shows: waist 50, hip 81.2 and neck 131.2. As binary64
  numbers, \<open>waist + hip\<close> exceeds the neck by \<open>2^-46\<close>; the sum rounds to the neck (a
  tie), the difference is zero, its logarithm is \<open>-Infinity\<close>, the quotient is 0 and the
  result is the lower bound 8.
\<close>

lemma rounded_difference_zero:
  assumes "\<forall>x. 0 < x \<longrightarrow> \<bar>lg x - log 10 x\<bar> \<le> 1" "is_double h" "0 < h"
  shows "num_val (lit 131.2) < 50 + num_val (lit 81.2)"
    and "Fin 50 + lit 81.2 - lit 131.2 = Fin 0"
    and "calculateBodyFatPercentage lg
           \<lparr>waist = Fin 50, neck = lit 131.2, hip = Some (lit 81.2),
            height = Fin h, weight = Fin 60, age = Fin 30, sex = ''female''\<rparr> = Inr (Fin 8)"
proof -
  show "num_val (lit 131.2) < 50 + num_val (lit 81.2)"
    by (simp add: ex_zero)
  show z: "Fin 50 + lit 81.2 - lit 131.2 = Fin 0"
    by (simp add: ex_zero num_eval)
  have L: "is_finite (Math_log10 lg (Fin h))" "\<bar>num_val (Math_log10 lg (Fin h))\<bar> \<le> 325"
    by (rule Math_log10_finite[OF assms])+
  have "\<bar>num_val (lit 0.22100) * num_val (Math_log10 lg (Fin h))\<bar> \<le> 325"
    using L(2) by (simp add: lit_evals abs_mult)
  then have "is_finite (lit 0.22100 * Math_log10 lg (Fin h))"
    using L(1) by (intro times_finite(1)[where b = 325]) (simp_all add: lit_evals)
  then have "lit 1.29579 - lit 0.35004 * NInf + lit 0.22100 * Math_log10 lg (Fin h) = PInf"
    by (simp add: lit_evals times_number_def minus_number_def plus_number_def
          signed_infinity_def)
  then show "calculateBodyFatPercentage lg
           \<lparr>waist = Fin 50, neck = lit 131.2, hip = Some (lit 81.2),
            height = Fin h, weight = Fin 60, age = Fin 30, sex = ''female''\<rparr> = Inr (Fin 8)"
    using z
    by (simp add: calculateBodyFatPercentage_def truthy_def divide_number_def signed_zero_def
          Fin_minus ex_zero(1))
qed

section \<open>A logarithm argument that is not positive\<close>

lemma NaN_arith [simp]:
  "NaN + x = NaN" "x + NaN = NaN" "NaN - x = NaN" "x - NaN = NaN"
  "NaN * x = NaN" "x * NaN = NaN" "NaN / x = NaN" "x / NaN = NaN"
  by (simp_all add: plus_number_def minus_number_def times_number_def divide_number_def)

text \<open>
  C2 as it is stated fails: the source has no check of the logarithm's argument and no
  error for it. With waist 30 and neck 40 the argument \<open>waist - neck\<close> is \<open>- 10\<close>; the
  call on a male input does not fail, and what it returns is \<open>NaN\<close>.
\<close>

theorem negative_log_argument_counterexample:
  "Fin 30 - Fin 40 = Fin (- 10)
   \<and> calculateBodyFatPercentage (log 10)
        \<lparr>waist = Fin 30, neck = Fin 40, hip = None,
         height = Fin 170, weight = Fin 70, age = Fin 30, sex = ''male''\<rparr> = Inr NaN"
  by (simp add: calculateBodyFatPercentage_def Fin_minus Math_max_def Math_min_def)

text \<open>
  C2, as the code has it. \<open>calculateBodyFatPercentage\<close> looks at the sex and at the hip
  value only: whatever the waist, neck and height are, and so whatever the sign of the
  logarithm's argument is, it returns a value on a male input and on any other input
  whose hip value is truthy, and it fails on the remaining inputs, with
  \<open>MissingHipMeasurement\<close>. There is no other failure.
\<close>

theorem log_argument_not_checked:
  "(sex m = ''male'' \<longrightarrow> (\<exists>r. calculateBodyFatPercentage lg m = Inr r))
   \<and> (sex m \<noteq> ''male'' \<and> truthy_opt (hip m) \<longrightarrow>
         (\<exists>r. calculateBodyFatPercentage lg m = Inr r))
   \<and> (sex m \<noteq> ''male'' \<and> \<not> truthy_opt (hip m) \<longrightarrow>
         calculateBodyFatPercentage lg m = Inl MissingHipMeasurement)"
  by (auto simp: calculateBodyFatPercentage_def Let_def truthy_opt_def split: option.splits)

theorem log_argument_not_checked_witness:
  "(\<exists>r. calculateBodyFatPercentage (log 10)
          \<lparr>waist = Fin 30, neck = Fin 40, hip = None,
           height = Fin 170, weight = Fin 70, age = Fin 30, sex = ''male''\<rparr> = Inr r)
   \<and> (\<exists>r. calculateBodyFatPercentage (log 10)
          \<lparr>waist = Fin 30, neck = Fin 40, hip = Some (Fin 5),
           height = Fin 165, weight = Fin 60, age = Fin 30, sex = ''female''\<rparr> = Inr r)
   \<and> calculateBodyFatPercentage (log 10)
          \<lparr>waist = Fin 30, neck = Fin 40, hip = Some (Fin 0),
           height = Fin 165, weight = Fin 60, age = Fin 30, sex = ''female''\<rparr>
       = Inl MissingHipMeasurement"
proof (intro conjI)
  show "\<exists>r. calculateBodyFatPercentage (log 10)
          \<lparr>waist = Fin 30, neck = Fin 40, hip = None,
           height = Fin 170, weight = Fin 70, age = Fin 30, sex = ''male''\<rparr> = Inr r"
    using log_argument_not_checked
      [where m = "\<lparr>waist = Fin 30, neck = Fin 40, hip = None,
           height = Fin 170, weight = Fin 70, age = Fin 30, sex = ''male''\<rparr>"
        and lg = "log 10"]
    by simp
  show "\<exists>r. calculateBodyFatPercentage (log 10)
          \<lparr>waist = Fin 30, neck = Fin 40, hip = Some (Fin 5),
           height = Fin 165, weight = Fin 60, age = Fin 30, sex = ''female''\<rparr> = Inr r"
    using log_argument_not_checked
      [where m = "\<lparr>waist = Fin 30, neck = Fin 40, hip = Some (Fin 5),
           height = Fin 165, weight = Fin 60, age = Fin 30, sex = ''female''\<rparr>"
        and lg = "log 10"]
    by (simp add: truthy_opt_def truthy_def)
  show "calculateBodyFatPercentage (log 10)
          \<lparr>waist = Fin 30, neck = Fin 40, hip = Some (Fin 0),
           height = Fin 165, weight = Fin 60, age = Fin 30, sex = ''female''\<rparr>
       = Inl MissingHipMeasurement"
    using log_argument_not_checked
      [where m = "\<lparr>waist = Fin 30, neck = Fin 40, hip = Some (Fin 0),
           height = Fin 165, weight = Fin 60, age = Fin 30, sex = ''female''\<rparr>"
        and lg = "log 10"]
    by (simp add: truthy_opt_def truthy_def)
qed

section \<open>Missing hip measurement\<close>

text \<open>
  C3. A female input with no hip value makes \<open>calculateBodyFatPercentage\<close> fail with
  \<open>MissingHipMeasurement\<close>; no body-fat value is produced.
\<close>

theorem female_without_hip_fails:
  "sex m = ''female'' \<Longrightarrow> hip m = None \<Longrightarrow>
     calculateBodyFatPercentage lg m = Inl MissingHipMeasurement"
  by (simp add: calculateBodyFatPercentage_def)

theorem female_without_hip_fails_witness:
  "calculateBodyFatPercentage (log 10)
     \<lparr>waist = Fin 70, neck = Fin 32, hip = None,
      height = Fin 165, weight = Fin 60, age = Fin 30, sex = ''female''\<rparr>
   = Inl MissingHipMeasurement"
  by (rule female_without_hip_fails) simp_all

section \<open>Goals outside the three known values\<close>

text \<open>
  C8. For every profile whose goal is not one of \<open>lose_fat\<close>, \<open>gain_muscle\<close> and
  \<open>maintain\<close>, both \<open>generateWorkoutPlan\<close> and \<open>generateNutritionPlan\<close> fail with
  \<open>InvalidGoal\<close>.
\<close>

theorem invalid_goal_fails:
  "goal p \<notin> {''lose_fat'', ''gain_muscle'', ''maintain''} \<Longrightarrow>
     generateWorkoutPlan p = Inl InvalidGoal \<and> generateNutritionPlan p = Inl InvalidGoal"
  by (simp add: generateWorkoutPlan_def getBaseWorkoutPlan_def generateNutritionPlan_def Let_def)

theorem invalid_goal_fails_witness:
  "generateWorkoutPlan
     \<lparr>profile_height = Fin 170, profile_weight = Fin 70, profile_age = Fin 30,
      profile_sex = ''male'', goal = ''invalid'', activityLevel = ''moderate'',
      bodyFatPercentage = None\<rparr> = Inl InvalidGoal
   \<and> generateNutritionPlan
     \<lparr>profile_height = Fin 170, profile_weight = Fin 70, profile_age = Fin 30,
      profile_sex = ''male'', goal = ''invalid'', activityLevel = ''moderate'',
      bodyFatPercentage = None\<rparr> = Inl InvalidGoal"
  by (rule invalid_goal_fails) simp

section \<open>The floors of the circumferences\<close>

text \<open>
  \<open>Math.max(x, 50)\<close> is at least 50 unless \<open>x\<close> is \<open>NaN\<close>, and it is exactly 50 when
  \<open>x\<close> is below 50.
\<close>

lemma Math_max_floor:
  "Math_max x (Fin c) = NaN \<and> x = NaN \<or> Fin c \<le> Math_max x (Fin c)"
  by (cases x) (auto simp: Math_max_def less_eq_number_def less_number_def)

lemma Math_max_below_floor: "x < Fin c \<Longrightarrow> Math_max x (Fin c) = Fin c"
  by (cases x) (auto simp: Math_max_def less_number_def)

lemma circumference_floors_unless_NaN:
  "(waist (calculateCircumferences l h iw ih) = NaN
      \<or> Fin 50 \<le> waist (calculateCircumferences l h iw ih))
   \<and> (neck (calculateCircumferences l h iw ih) = NaN
      \<or> Fin 25 \<le> neck (calculateCircumferences l h iw ih))"
  using Math_max_floor by (auto simp: calculateCircumferences_def Let_def)

text \<open>
  C4 fails on the code. The landmarks below are those of a body that lies across the
  picture: the left ankle is as high as the left shoulder, the two hips have the same
  \<open>x\<close> and so have the two shoulders. Every coordinate is in \<open>[0, 1]\<close>, the height is
  170 cm and the image is 1280 by 720. The vertical span is 0, the scale \<open>170 / 0\<close> is
  infinity, both widths are 0, and \<open>0 * Infinity\<close> is \<open>NaN\<close>, which \<open>Math.max\<close> passes
  on: the returned waist and neck are \<open>NaN\<close>, not 50 and 25.
\<close>

theorem circumference_floors_missed_on_NaN:
  "calculateCircumferences
     \<lparr>leftShoulder = \<lparr>pt_x = lit 0.2, pt_y = lit 0.4\<rparr>,
      rightShoulder = \<lparr>pt_x = lit 0.2, pt_y = lit 0.6\<rparr>,
      leftHip = \<lparr>pt_x = lit 0.5, pt_y = lit 0.4\<rparr>,
      rightHip = \<lparr>pt_x = lit 0.5, pt_y = lit 0.6\<rparr>,
      leftKnee = \<lparr>pt_x = lit 0.7, pt_y = lit 0.4\<rparr>,
      rightKnee = \<lparr>pt_x = lit 0.7, pt_y = lit 0.6\<rparr>,
      leftAnkle = \<lparr>pt_x = lit 0.9, pt_y = lit 0.4\<rparr>,
      rightAnkle = \<lparr>pt_x = lit 0.9, pt_y = lit 0.6\<rparr>,
      lm_waist = \<lparr>pt_x = lit 0.45, pt_y = lit 0.5\<rparr>,
      lm_neck = \<lparr>pt_x = lit 0.15, pt_y = lit 0.5\<rparr>,
      lm_hip = Some \<lparr>pt_x = lit 0.55, pt_y = lit 0.5\<rparr>\<rparr>
     (Fin 170) (Fin 1280) (Fin 720)
   = \<lparr>waist = NaN, neck = NaN, hip = Some NaN\<rparr>"
  by (simp add: calculateCircumferences_def Math_PI_def Let_def lit_evals times_number_def
        divide_number_def signed_zero_def signed_infinity_def Math_max_def)

section \<open>The nutrition plan\<close>

lemma nutrition_plan_of_tdee:
  assumes "(goal p, calories, prot, cpct, fpct) \<in>
           {(''lose_fat'', calculateTDEE p - Fin 500, lit 2.2, lit 0.35, lit 0.25),
            (''gain_muscle'', calculateTDEE p + Fin 300, lit 2.0, lit 0.45, lit 0.25),
            (''maintain'', calculateTDEE p, lit 1.6, lit 0.40, lit 0.30)}"
  shows "\<exists>plan. generateNutritionPlan p = Inr plan
     \<and> dailyCalories plan = Math_round calories
     \<and> protein (macros plan) = Math_round (profile_weight p * prot)
     \<and> carbs (macros plan) = Math_round (calories * cpct / Fin 4)
     \<and> fat (macros plan) = Math_round (calories * fpct / Fin 9)"
  using assms
  by (elim insertE emptyE; elim Pair_inject; hypsubst)
     (simp_all add: generateNutritionPlan_def Let_def)

text \<open>
  \<open>Math.round\<close> of a finite number is an integer at most one half away from it.
\<close>

lemma Math_round_nearest:
  "\<exists>k :: int. is_finite (Math_round (Fin a)) \<and> num_val (Math_round (Fin a)) = of_int k
     \<and> \<bar>of_int k - a\<bar> \<le> 1 / 2"
proof -
  have "\<bar>of_int \<lfloor>a + 1 / 2\<rfloor> - a\<bar> \<le> 1 / 2"
    by linarith
  then show ?thesis
    by (intro exI[of _ "\<lfloor>a + 1 / 2\<rfloor>"]) simp
qed

text \<open>
  C5. Take a profile of sex male or female with one of the five activity levels and one
  of the three goals. Then \<open>calculateBMR\<close> is \<open>10 weight + 6.25 height - 5 age + 5\<close>
  (male) or \<open>... - 161\<close> (female), \<open>calculateTDEE\<close> is the BMR times the level's
  multiplier, and \<open>generateNutritionPlan\<close> returns a plan whose \<open>dailyCalories\<close> is
  the TDEE minus 500, plus 300 or unchanged, whose protein is 2.2, 2.0 or 1.6 times the
  weight, whose carbs are 35, 45 or 40 per cent of those calories divided by 4 and whose
  fat is 25, 25 or 30 per cent of them divided by 9, each rounded to the nearest integer
  by \<open>Math.round\<close>. The calories that the macros are taken from are the ones before
  rounding. The specification wants the rounded values reproduced bit for bit, so every
  operation is the binary64 one, in the order the source has them: the percentage is
  taken first and the quotient second.
\<close>

theorem nutrition_plan_formulas:
  assumes "base = Fin 10 * profile_weight p + lit 6.25 * profile_height p
                    - Fin 5 * profile_age p"
    and "(profile_sex p, bmr) \<in> {(''male'', base + Fin 5), (''female'', base - Fin 161)}"
    and "(activityLevel p, tdee) \<in>
           {(''sedentary'', bmr * lit 1.2), (''light'', bmr * lit 1.375),
            (''moderate'', bmr * lit 1.55), (''active'', bmr * lit 1.725),
            (''very_active'', bmr * lit 1.9)}"
    and "(goal p, calories, prot, cpct, fpct) \<in>
           {(''lose_fat'', tdee - Fin 500, lit 2.2, lit 0.35, lit 0.25),
            (''gain_muscle'', tdee + Fin 300, lit 2.0, lit 0.45, lit 0.25),
            (''maintain'', tdee, lit 1.6, lit 0.40, lit 0.30)}"
  shows "calculateBMR p = bmr \<and> calculateTDEE p = tdee
     \<and> (\<exists>plan. generateNutritionPlan p = Inr plan
           \<and> dailyCalories plan = Math_round calories
           \<and> protein (macros plan) = Math_round (prot * profile_weight p)
           \<and> carbs (macros plan) = Math_round (cpct * calories / Fin 4)
           \<and> fat (macros plan) = Math_round (fpct * calories / Fin 9))"
proof -
  have b: "calculateBMR p = bmr"
    using assms(2)
    by (elim insertE emptyE; elim Pair_inject; hypsubst)
       (simp_all add: calculateBMR_def assms(1))
  have t: "calculateTDEE p = tdee"
    using assms(3)
    by (elim insertE emptyE; elim Pair_inject; hypsubst)
       (simp_all add: calculateTDEE_def activityMultipliers_def b)
  show ?thesis
    using nutrition_plan_of_tdee[of p calories prot cpct fpct] assms(4) b t
    by (simp add: times_commute[of prot] times_commute[of cpct] times_commute[of fpct])
qed

text \<open>
  The profile 70 kg, 192 cm, 21 years, male, very active, lose fat: the BMR is 1800, the
  TDEE 3420 and the calories 2920. The exact product \<open>2920 * 0.35 / 4\<close> is 255.5; in
  binary64 \<open>2920 * 0.35\<close> is \<open>1021.9999999999999\<close> and the quotient
  \<open>255.49999999999997\<close>, so the plan has 255 grams of carbs.
\<close>

theorem nutrition_plan_formulas_witness:
  "\<exists>plan. generateNutritionPlan
       \<lparr>profile_height = Fin 192, profile_weight = Fin 70, profile_age = Fin 21,
        profile_sex = ''male'', goal = ''lose_fat'', activityLevel = ''very_active'',
        bodyFatPercentage = None\<rparr> = Inr plan
     \<and> dailyCalories plan = Fin 2920
     \<and> macros plan = \<lparr>protein = Fin 154, carbs = Fin 255, fat = Fin 81\<rparr>"
  using nutrition_plan_formulas
    [where p = "\<lparr>profile_height = Fin 192, profile_weight = Fin 70, profile_age = Fin 21,
        profile_sex = ''male'', goal = ''lose_fat'', activityLevel = ''very_active'',
        bodyFatPercentage = None\<rparr>"
      and bmr = "Fin 1800" and tdee = "Fin 3420"
      and calories = "Fin 2920" and prot = "lit 2.2" and cpct = "lit 0.35" and fpct = "lit 0.25",
      OF refl]
  by (auto simp: num_eval lit_evals ex_lose_fat)

text \<open>
  C6 as it is stated fails. For the profile weight 70, height 170, age 30, male,
  moderate, maintain the BMR is \<open>10 * 70 + 6.25 * 170 - 5 * 30 + 5 = 1617.5\<close>, not
  1752.5, the TDEE is \<open>1617.5 * 1.55 = 2507.125\<close>, and the returned \<open>dailyCalories\<close> is
  2507, not 2716.
\<close>

theorem nutrition_example_counterexample:
  "calculateBMR
     \<lparr>profile_height = Fin 170, profile_weight = Fin 70, profile_age = Fin 30,
      profile_sex = ''male'', goal = ''maintain'', activityLevel = ''moderate'',
      bodyFatPercentage = None\<rparr> = Fin 1617.5
   \<and> Fin 1617.5 \<noteq> Fin 1752.5
   \<and> map_sum id dailyCalories
        (generateNutritionPlan
           \<lparr>profile_height = Fin 170, profile_weight = Fin 70, profile_age = Fin 30,
            profile_sex = ''male'', goal = ''maintain'', activityLevel = ''moderate'',
            bodyFatPercentage = None\<rparr>) = Inr (Fin 2507)
   \<and> Fin 2507 \<noteq> Fin 2716"
  by (simp add: generateNutritionPlan_def Let_def calculateTDEE_def calculateBMR_def
        activityMultipliers_def num_eval lit_evals ex_maintain)

text \<open>
  C6, as the code has it. For that profile \<open>calculateBMR\<close> is 1617.5 and
  \<open>calculateTDEE\<close> is 2507.125 (both exact in binary64); the plan returned has
  \<open>dailyCalories\<close> 2507, protein \<open>round(70 * 1.6) = 112\<close> grams, carbs 251 grams and
  fat 84 grams.
\<close>

theorem nutrition_example:
  "calculateBMR
     \<lparr>profile_height = Fin 170, profile_weight = Fin 70, profile_age = Fin 30,
      profile_sex = ''male'', goal = ''maintain'', activityLevel = ''moderate'',
      bodyFatPercentage = None\<rparr> = Fin 1617.5
   \<and> calculateTDEE
     \<lparr>profile_height = Fin 170, profile_weight = Fin 70, profile_age = Fin 30,
      profile_sex = ''male'', goal = ''maintain'', activityLevel = ''moderate'',
      bodyFatPercentage = None\<rparr> = Fin 2507.125
   \<and> generateNutritionPlan
     \<lparr>profile_height = Fin 170, profile_weight = Fin 70, profile_age = Fin 30,
      profile_sex = ''male'', goal = ''maintain'', activityLevel = ''moderate'',
      bodyFatPercentage = None\<rparr>
     = Inr \<lparr>np_title = ''MAINTAIN Nutrition Plan'',
            np_description = ''Personalized nutrition plan for maintain goals'',
            dailyCalories = Fin 2507,
            macros = \<lparr>protein = Fin 112, carbs = Fin 251, fat = Fin 84\<rparr>,
            mealPlan =
              generateMealPlan (Fin 2507.125)
                \<lparr>protein = Fin 70 * lit 1.6, carbs = Fin 2507.125 * lit 0.40 / Fin 4,
                 fat = Fin 2507.125 * lit 0.30 / Fin 9\<rparr>
                ''maintain'',
            guidelines = generateNutritionGuidelines ''maintain''\<rparr>"
  by (simp add: generateNutritionPlan_def Let_def calculateTDEE_def calculateBMR_def
        activityMultipliers_def toUpperCase_def generateMealPlan_def num_eval lit_evals
        ex_maintain)

section \<open>The workout plan\<close>

lemma gt_25_truthy: "Fin 25 < b \<Longrightarrow> truthy b"
  by (cases b) (auto simp: truthy_def less_number_def)

lemma body_fat_condition:
  "(case bodyFatPercentage p of None \<Rightarrow> False | Some b \<Rightarrow> truthy b \<and> Fin 25 < b)
     = body_fat_over_25 p"
  by (auto simp: body_fat_over_25_def gt_25_truthy split: option.splits)

text \<open>
  The source adjusts \<open>sets\<close> and \<open>rest\<close> only when the value is truthy: a value of 0 or
  \<open>NaN\<close> stays as it is. On exercises whose values are all truthy the source's update is
  the age rule.
\<close>

lemma adjust_exercise:
  assumes "\<forall>s. sets e = Some s \<longrightarrow> truthy s" "\<forall>r. rest e = Some r \<longrightarrow> truthy r"
  shows "e\<lparr>sets := (case sets e of None \<Rightarrow> None
                     | Some s \<Rightarrow> if truthy s then Some (Math_max (Fin 2) (s - Fin 1)) else Some s),
           rest := (case rest e of None \<Rightarrow> None
                     | Some r \<Rightarrow> if truthy r then Some (r + Fin 30) else Some r)\<rparr>
         = reduce_intensity e"
  using assms by (auto simp: reduce_intensity_def split: option.splits)

lemma customize_eq_pass:
  assumes "\<forall>w \<in> set (workouts b). \<forall>e \<in> set (exercises w).
             (\<forall>s. sets e = Some s \<longrightarrow> truthy s) \<and> (\<forall>r. rest e = Some r \<longrightarrow> truthy r)"
  shows "customizeWorkoutPlan b p = customization_pass p b"
proof -
  have adj:
    "map (\<lambda>workout. workout\<lparr>exercises :=
            map (\<lambda>exercise. exercise
                   \<lparr>sets := (case sets exercise of
                               None \<Rightarrow> None
                             | Some s \<Rightarrow>
                                 if truthy s then Some (Math_max (Fin 2) (s - Fin 1))
                                 else Some s),
                    rest := (case rest exercise of
                               None \<Rightarrow> None
                             | Some r \<Rightarrow>
                                 if truthy r then Some (r + Fin 30) else Some r)\<rparr>)
              (exercises workout)\<rparr>) (workouts b)
     = map (\<lambda>w. w\<lparr>exercises := map reduce_intensity (exercises w)\<rparr>) (workouts b)"
    using assms
    by (intro map_cong refl arg_cong2[where f = "\<lambda>x w. w\<lparr>exercises := x\<rparr>"] adjust_exercise)
       auto
  show ?thesis
    unfolding customizeWorkoutPlan_def Let_def body_fat_condition adj
    by (simp add: customization_pass_def over_fifty_def comp_def)
qed

lemma templates_truthy:
  assumes "b \<in> {plan_lose_fat, plan_gain_muscle, plan_maintain}"
  shows "\<forall>w \<in> set (workouts b). \<forall>e \<in> set (exercises w).
             (\<forall>s. sets e = Some s \<longrightarrow> truthy s) \<and> (\<forall>r. rest e = Some r \<longrightarrow> truthy r)"
  using assms
  by (elim insertE emptyE)
     (simp_all add: plan_lose_fat_def plan_gain_muscle_def plan_maintain_def truthy_def)

text \<open>Every \<open>sets\<close> value of the three templates is 3 or 4, so the floor of 2 never bites.\<close>

lemma templates_sets:
  assumes "b \<in> {plan_lose_fat, plan_gain_muscle, plan_maintain}"
  shows "\<forall>w \<in> set (workouts b). \<forall>e \<in> set (exercises w). \<forall>s. sets e = Some s \<longrightarrow>
            Math_max (Fin 2) (s - Fin 1) = s - Fin 1"
  using assms
  by (elim insertE emptyE)
     (simp_all add: plan_lose_fat_def plan_gain_muscle_def plan_maintain_def num_eval)

lemma base_plan:
  assumes "g \<in> {''lose_fat'', ''gain_muscle'', ''maintain''}"
  shows "\<exists>b \<in> {plan_lose_fat, plan_gain_muscle, plan_maintain}. getBaseWorkoutPlan g = Inr b"
  using assms by (auto simp: getBaseWorkoutPlan_def)

lemma generate_is_pass:
  assumes "goal p \<in> {''lose_fat'', ''gain_muscle'', ''maintain''}"
  shows "\<exists>base \<in> {plan_lose_fat, plan_gain_muscle, plan_maintain}.
           getBaseWorkoutPlan (goal p) = Inr base
         \<and> generateWorkoutPlan p = Inr (customization_pass p base)"
proof -
  obtain b where b: "b \<in> {plan_lose_fat, plan_gain_muscle, plan_maintain}"
      "getBaseWorkoutPlan (goal p) = Inr b"
    using base_plan[OF assms] by blast
  have "generateWorkoutPlan p = Inr (customization_pass p b)"
    using b(2) customize_eq_pass[OF templates_truthy[OF b(1)]]
    by (simp add: generateWorkoutPlan_def)
  then show ?thesis
    using b by blast
qed

lemma maintain_at_55:
  assumes "goal p = ''maintain''" "profile_age p = Fin 55"
  shows "\<exists>r. generateWorkoutPlan p = Inr r
           \<and> list_all2
                (\<lambda>w' w. list_all2 eased (exercises w') (take (length (exercises w')) (exercises w)))
                (workouts r) (workouts plan_maintain)"
proof -
  have g: "generateWorkoutPlan p = Inr (customization_pass p plan_maintain)"
    using generate_is_pass[of p] assms(1) by (auto simp: getBaseWorkoutPlan_def)
  have o: "over_fifty p"
    by (simp add: over_fifty_def assms(2))
  have "list_all2
          (\<lambda>w' w. list_all2 eased (exercises w') (take (length (exercises w')) (exercises w)))
          (workouts (customization_pass p plan_maintain)) (workouts plan_maintain)"
    by (cases "body_fat_over_25 p")
       (simp_all add: customization_pass_def o plan_maintain_def reduce_intensity_def eased_def
          num_eval)
  then show ?thesis
    using g by simp
qed

text \<open>
  C7. For every profile with one of the three goals, \<open>generateWorkoutPlan\<close> returns the
  goal's base template after the customization pass: first, if \<open>age > 50\<close>, every
  exercise of every workout has \<open>sets\<close> reduced by 1 with a floor of 2 and \<open>rest\<close>
  increased by 30 where the field is present (an exercise without the field keeps none);
  second, if \<open>bodyFatPercentage\<close> is present and above 25, every workout keeps its first
  four exercises. Every \<open>sets\<close> value of a template is at least 3, so the reduction is by
  exactly 1. In particular with \<open>age = 55\<close> and \<open>goal = maintain\<close> every exercise of the
  result has the \<open>sets\<close> of its template exercise minus 1 and the \<open>rest\<close> plus 30.
\<close>

theorem workout_plan_customization:
  assumes "goal p \<in> {''lose_fat'', ''gain_muscle'', ''maintain''}"
  shows "(\<exists>base. getBaseWorkoutPlan (goal p) = Inr base
            \<and> generateWorkoutPlan p = Inr (customization_pass p base)
            \<and> (\<forall>w \<in> set (workouts base). \<forall>e \<in> set (exercises w). \<forall>s. sets e = Some s \<longrightarrow>
                  Math_max (Fin 2) (s - Fin 1) = s - Fin 1))
       \<and> (goal p = ''maintain'' \<and> profile_age p = Fin 55 \<longrightarrow>
            (\<exists>r. generateWorkoutPlan p = Inr r
               \<and> list_all2
                    (\<lambda>w' w. list_all2 eased (exercises w')
                               (take (length (exercises w')) (exercises w)))
                    (workouts r) (workouts plan_maintain)))"
proof (intro conjI impI)
  obtain b where b: "b \<in> {plan_lose_fat, plan_gain_muscle, plan_maintain}"
      "getBaseWorkoutPlan (goal p) = Inr b"
      "generateWorkoutPlan p = Inr (customization_pass p b)"
    using generate_is_pass[OF assms] by blast
  then show "\<exists>base. getBaseWorkoutPlan (goal p) = Inr base
            \<and> generateWorkoutPlan p = Inr (customization_pass p base)
            \<and> (\<forall>w \<in> set (workouts base). \<forall>e \<in> set (exercises w). \<forall>s. sets e = Some s \<longrightarrow>
                  Math_max (Fin 2) (s - Fin 1) = s - Fin 1)"
    using templates_sets[OF b(1)] by blast
next
  assume "goal p = ''maintain'' \<and> profile_age p = Fin 55"
  then show "\<exists>r. generateWorkoutPlan p = Inr r
               \<and> list_all2
                    (\<lambda>w' w. list_all2 eased (exercises w')
                               (take (length (exercises w')) (exercises w)))
                    (workouts r) (workouts plan_maintain)"
    using maintain_at_55 by blast
qed

theorem workout_plan_customization_witness:
  "\<exists>r. generateWorkoutPlan
          \<lparr>profile_height = Fin 170, profile_weight = Fin 70, profile_age = Fin 55,
           profile_sex = ''male'', goal = ''maintain'', activityLevel = ''moderate'',
           bodyFatPercentage = None\<rparr> = Inr r
     \<and> map (\<lambda>w. map sets (exercises w)) (workouts r)
         = [[Some (Fin 2), Some (Fin 2), Some (Fin 2), Some (Fin 2), Some (Fin 2), Some (Fin 2)],
            [None, None, None],
            [None, None, None]]
     \<and> map (\<lambda>w. map rest (exercises w)) (workouts r)
         = [[Some (Fin 120), Some (Fin 90), Some (Fin 120), Some (Fin 90), Some (Fin 75),
             Some (Fin 90)],
            [None, None, None],
            [None, None, None]]"
  using workout_plan_customization
    [where p = "\<lparr>profile_height = Fin 170, profile_weight = Fin 70, profile_age = Fin 55,
           profile_sex = ''male'', goal = ''maintain'', activityLevel = ''moderate'',
           bodyFatPercentage = None\<rparr>"]
  by (auto simp: getBaseWorkoutPlan_def customization_pass_def over_fifty_def
        body_fat_over_25_def plan_maintain_def reduce_intensity_def num_eval)

section \<open>The orchestration\<close>

lemma number_le_trans: "x \<le> y \<Longrightarrow> y \<le> z \<Longrightarrow> x \<le> (z :: number)"
  by (cases x; cases y; cases z) (simp_all add: less_eq_number_def)

lemma is_double_half [simp]: "is_double (1 / 2)"
  using is_double_dyadic[of "1 / 2" 1 "- 1"] by simp

text \<open>
  With the fixed landmarks and the 1280 by 720 image the vertical span is
  \<open>503.99999999999994\<close> pixels, the waist width \<open>384.00000000000006\<close> and the neck
  width \<open>153.59999999999997\<close> (the three fractions below).
\<close>

lemma mock_circumferences:
  assumes "E = 8866461766385663 / 17592186044416" "W = 6755399441055745 / 17592186044416"
    and "N = 2702159776422297 / 17592186044416"
  shows "calculateCircumferences (mockPoseDetection f) H (Fin 1280) (Fin 720) =
     \<lparr>waist = Math_max (Fin W * (H / Fin E) * Math_PI) (Fin 50),
      neck = Math_max (Fin N * (H / Fin E) * Math_PI) (Fin 25),
      hip = Some (Fin W * (H / Fin E) * Math_PI)\<rparr>"
  unfolding assms
  by (simp add: calculateCircumferences_def mockPoseDetection_def Let_def lit_evals mock_evals
        num_eval)

text \<open>
  The neck circumference of the fixed landmarks is below \<open>0.96\<close> times the height, so it
  is finite for every height; the waist circumference, about \<open>2.4\<close> times the height, is
  infinite for the largest heights.
\<close>

lemma mock_neck_finite:
  assumes "is_double h" "0 < h"
    and "E = 8866461766385663 / 17592186044416" "N = 2702159776422297 / 17592186044416"
  shows "is_finite (Fin N * (Fin h / Fin E) * Math_PI)"
proof -
  define c :: real where "c = 1 + 1 / 2 ^ 52"
  define p :: real where "p = 884279719003555 / 2 ^ 48"
  define r where "r = rnd (h / E)"
  define y1 where "y1 = rnd (N * r)"
  define y2 where "y2 = rnd (y1 * p)"
  have E: "1 \<le> E" "0 < E" and N: "0 \<le> N" and p: "0 \<le> p"
    by (simp_all add: assms(3,4) p_def)
  have h: "h < 2 ^ 1024"
    using is_double_less[OF assms(1)] by simp
  have "\<bar>h / E\<bar> \<le> h"
    using assms(2) E by (simp add: field_simps)
  then have R: "is_finite (fl (h / E))" "num_val (fl (h / E)) = r"
    using fl_bounded[of "h / E" h] assms(1) by (simp_all add: r_def)
  have Rq: "Fin h / Fin E = fl (h / E)"
    using assms(2) E by (simp add: Fin_divide)
  have r0: "0 \<le> r"
    unfolding r_def using assms(2) E by (intro rnd_nonneg) simp
  have r1: "r \<le> h / E * c + 1"
    unfolding r_def c_def using assms(2) E by (intro rnd_rel) simp
  have y10: "0 \<le> y1"
    unfolding y1_def using r0 N by (intro rnd_nonneg) simp
  have y11: "y1 \<le> N * r * c + 1"
    unfolding y1_def c_def using r0 N by (intro rnd_rel) simp
  have y20: "0 \<le> y2"
    unfolding y2_def using y10 p by (intro rnd_nonneg) simp
  have y21: "y2 \<le> y1 * p * c + 1"
    unfolding y2_def c_def using y10 p by (intro rnd_rel) simp
  have b1: "y1 < 2 ^ 1024"
    using y11 r1 h assms(2) unfolding assms(3,4) c_def by simp
  have b2: "y2 < 2 ^ 1024"
    using y21 y11 r1 h assms(2) unfolding assms(3,4) c_def p_def by simp
  have Y1: "is_finite (Fin N * fl (h / E))" "num_val (Fin N * fl (h / E)) = y1"
    using times_finite_rnd[of "Fin N" "fl (h / E)"] R b1 y10
    by (simp_all add: y1_def)
  have "is_finite (Fin N * fl (h / E) * Math_PI)"
    using times_finite_rnd(1)[of "Fin N * fl (h / E)" Math_PI] Y1 b2 y20
    by (simp add: y2_def Math_PI_def p_def)
  then show ?thesis
    by (simp add: Rq)
qed

lemma mock_measurements:
  assumes "is_double h" "0 < h"
    and "c = calculateCircumferences (mockPoseDetection f) (Fin h) (Fin 1280) (Fin 720)"
  shows "is_finite (neck c)" "is_double (num_val (neck c))" "neck c \<le> waist c"
    "\<exists>x. hip c = Some x \<and> Fin 0 \<le> x"
proof -
  define E :: real where "E = 8866461766385663 / 17592186044416"
  define W :: real where "W = 6755399441055745 / 17592186044416"
  define N :: real where "N = 2702159776422297 / 17592186044416"
  define R where "R = Fin h / Fin E"
  have c: "c = \<lparr>waist = Math_max (Fin W * R * Math_PI) (Fin 50),
                neck = Math_max (Fin N * R * Math_PI) (Fin 25),
                hip = Some (Fin W * R * Math_PI)\<rparr>"
    unfolding assms(3) R_def by (rule mock_circumferences[OF E_def W_def N_def])
  have E: "1 \<le> E" "0 < E"
    by (simp_all add: E_def)
  have "\<bar>h / E\<bar> \<le> h"
    using assms(2) E by (simp add: field_simps)
  then have "is_finite (fl (h / E))" "num_val (fl (h / E)) = rnd (h / E)"
    using fl_bounded[of "h / E" h] assms(1) by simp_all
  moreover have "0 \<le> rnd (h / E)"
    using assms(2) E by (intro rnd_nonneg) simp
  moreover have "R = fl (h / E)"
    unfolding R_def using assms(2) E by (simp add: Fin_divide)
  ultimately have R: "is_finite R" "0 \<le> num_val R"
    by simp_all
  have 1: "Fin 0 \<le> Fin N * R \<and> Fin N * R \<le> Fin W * R"
    using R by (intro times_mono) (simp_all add: N_def W_def)
  have 2: "Fin 0 \<le> Fin N * R * Math_PI \<and> Fin N * R * Math_PI \<le> Fin W * R * Math_PI"
    using 1 by (intro times_mono) (simp_all add: Math_PI_def)
  have fin: "is_finite (Fin N * R * Math_PI)"
    unfolding R_def by (rule mock_neck_finite[OF assms(1,2) E_def N_def])
  show "is_finite (neck c)"
    using fin by (simp add: c Math_max_finite)
  show "is_double (num_val (neck c))"
    by (simp add: c is_double_num_val_Math_max)
  show "neck c \<le> waist c"
    using 2 by (simp add: c Math_max_mono)
  show "\<exists>x. hip c = Some x \<and> Fin 0 \<le> x"
    using 2 number_le_trans by (auto simp: c)
qed

text \<open>
  The percentage that \<open>calculateBodyFatPercentage\<close> returns on the measurements of the
  fixed landmarks is a number.
\<close>

lemma mock_body_fat_not_NaN:
  assumes "\<forall>x. 0 < x \<longrightarrow> \<bar>lg x - log 10 x\<bar> \<le> 1"
    and "is_double h" "0 < h"
    and "c = calculateCircumferences (mockPoseDetection f) (Fin h) (Fin 1280) (Fin 720)"
    and "m = \<lparr>waist = waist c, neck = neck c, hip = hip c, height = Fin h,
               weight = wt, age = a, sex = s\<rparr>"
    and "calculateBodyFatPercentage lg m = Inr b"
  shows "b \<noteq> NaN"
proof -
  note mm = mock_measurements[OF assms(2,3,4)]
  obtain x where x: "hip c = Some x" "Fin 0 \<le> x"
    using mm(4) by blast
  show ?thesis
  proof (cases "s = ''male''")
    case True
    have "waist m - neck m \<noteq> NaN \<and> waist m - neck m \<noteq> NInf \<and> 0 \<le> num_val (waist m - neck m)"
      using mm(1,3) by (intro minus_nonneg_le) (simp_all add: assms(5))
    then have "\<exists>r. calculateBodyFatPercentage lg m = Inr r \<and> Fin 3 \<le> r"
      using male_body_fat[where m = m and lg = lg and h = h] assms(1,2,3) True
      by (auto simp: assms(5))
    then show ?thesis
      using assms(6) by auto
  next
    case False
    have t: "truthy x"
      using assms(6) False x(1)
      by (auto simp: calculateBodyFatPercentage_def assms(5) split: if_splits)
    have "neck c \<le> waist c + x"
      using mm(1,2,3) x(2) by (intro le_plus)
    then have "waist m + x - neck m \<noteq> NaN \<and> waist m + x - neck m \<noteq> NInf
       \<and> 0 \<le> num_val (waist m + x - neck m)"
      using mm(1) by (intro minus_nonneg_le) (simp_all add: assms(5))
    then have "\<exists>r. calculateBodyFatPercentage lg m = Inr r \<and> Fin 8 \<le> r"
      using female_body_fat[where m = m and lg = lg and h = h and p = x] assms(1,2,3) False t x(1)
      by (auto simp: assms(5))
    then show ?thesis
      using assms(6) by auto
  qed
qed

text \<open>The jitter \<open>(Math.random() - 0.5) * 2\<close> for a draw in \<open>[0, 1]\<close>.\<close>

lemma jitter_bound:
  assumes "0 \<le> r" "r \<le> 1"
  shows "is_finite ((Fin r - lit 0.5) * Fin 2)" "\<bar>num_val ((Fin r - lit 0.5) * Fin 2)\<bar> \<le> 1"
proof -
  have "r - 1 / 2 \<le> 1 / 2" "- (r - 1 / 2) \<le> 1 / 2"
    using assms by linarith+
  then have "\<bar>r - 1 / 2\<bar> \<le> 1 / 2"
    by (rule abs_leI)
  then have a: "\<bar>num_val (Fin r) - num_val (Fin (1 / 2))\<bar> \<le> 1 / 2"
    by (simp only: num_val.simps)
  have d: "is_finite (Fin r - Fin (1 / 2))" "\<bar>num_val (Fin r - Fin (1 / 2))\<bar> \<le> 1 / 2"
    using minus_finite(1,3)[OF _ _ a] by simp_all
  then have "\<bar>num_val (Fin r - Fin (1 / 2)) * num_val (Fin 2)\<bar> \<le> 1"
    by simp
  then show "is_finite ((Fin r - lit 0.5) * Fin 2)"
    "\<bar>num_val ((Fin r - lit 0.5) * Fin 2)\<bar> \<le> 1"
    using d(1) by (intro times_finite[where b = 1]; simp add: lit_evals)+
qed

text \<open>
  The call can fail. With the smallest positive height, \<open>2^-1074\<close>, the scale
  \<open>height / 503.99999999999994\<close> underflows to zero, the hip circumference is zero, and a
  female profile is refused for its missing hip.
\<close>

lemma smallest_height_fails:
  "processBodyComposition lg f s
     \<lparr>profile_height = Fin (2 powi (- 1074)), profile_weight = wt, profile_age = a,
      profile_sex = ''female''\<rparr> random = Inl ProcessingFailed"
proof -
  have "(2::real) powi (- 1074) / (8866461766385663 / 17592186044416)
          < 2 powi (- 1074) / 2"
    by (intro divide_strict_left_mono) simp_all
  also have "\<dots> = 2 powi (- 1075)"
    by (simp add: power_int_minus field_simps)
  finally have "fl (2 powi (- 1074) / (8866461766385663 / 17592186044416)) = Fin 0"
    by (intro fl_tiny) simp_all
  then have "Fin (2 powi (- 1074)) / Fin (8866461766385663 / 17592186044416) = Fin 0"
    by (simp add: Fin_divide)
  then show ?thesis
    by (simp add: processBodyComposition_def mock_circumferences[OF refl refl refl]
          calculateBodyFatPercentage_def truthy_def times_number_def signed_zero_def
          Math_PI_def)
qed

text \<open>At 170 cm the hip circumference is \<open>406.91104846496376\<close> and the call succeeds.\<close>

lemma profile_170_succeeds:
  "\<exists>res. processBodyComposition lg f s
            \<lparr>profile_height = Fin 170, profile_weight = wt, profile_age = a,
             profile_sex = sx\<rparr> random = Inr res"
  by (simp add: processBodyComposition_def mock_circumferences[OF refl refl refl]
        calculateBodyFatPercentage_def Let_def truthy_def num_eval Math_PI_def ex_h170)



section \<open>What the customization leaves alone\<close>

lemma customize_frame: "same_plan_frame (customizeWorkoutPlan b p) b"
  by (auto simp: same_plan_frame_def customizeWorkoutPlan_def Let_def list_all2_map1
        same_workout_frame_def same_exercise_frame_def list_all2_map2 min_def
      intro!: list_all2_refl list_all2_takeI split: option.splits)

text \<open>
  C10. For every plan and profile, \<open>customizeWorkoutPlan\<close> returns a plan with the
  title, description, duration and rest days of its input and with as many workouts, each
  with the name, type, duration and instructions of the input's workout; the exercises
  of a returned workout stand for the first exercises of the input's workout, each with
  the same name, reps, duration and notes (only \<open>sets\<close> and \<open>rest\<close> can differ). What
  \<open>generateWorkoutPlan\<close> returns stands in that relation to the goal's base template.
\<close>

theorem customization_changes_only_exercises:
  "same_plan_frame (customizeWorkoutPlan b p) b
   \<and> (\<forall>r. generateWorkoutPlan p = Inr r \<longrightarrow>
         (\<exists>base. getBaseWorkoutPlan (goal p) = Inr base \<and> same_plan_frame r base))"
  using customize_frame
  by (auto simp: generateWorkoutPlan_def split: sum.splits)

theorem customization_changes_only_exercises_witness:
  "\<exists>r. generateWorkoutPlan
          \<lparr>profile_height = Fin 170, profile_weight = Fin 90, profile_age = Fin 60,
           profile_sex = ''male'', goal = ''lose_fat'', activityLevel = ''light'',
           bodyFatPercentage = Some (Fin 30)\<rparr> = Inr r
     \<and> same_plan_frame r plan_lose_fat
     \<and> map (\<lambda>w. length (exercises w)) (workouts r) = [4, 4, 3]"
proof -
  let ?p = "\<lparr>profile_height = Fin 170, profile_weight = Fin 90, profile_age = Fin 60,
           profile_sex = ''male'', goal = ''lose_fat'', activityLevel = ''light'',
           bodyFatPercentage = Some (Fin 30)\<rparr>"
  have g: "generateWorkoutPlan ?p = Inr (customizeWorkoutPlan plan_lose_fat ?p)"
    by (simp add: generateWorkoutPlan_def getBaseWorkoutPlan_def)
  have b: "getBaseWorkoutPlan (goal ?p) = Inr plan_lose_fat"
    by (simp add: getBaseWorkoutPlan_def)
  have "same_plan_frame (customizeWorkoutPlan plan_lose_fat ?p) plan_lose_fat"
    using customization_changes_only_exercises[where p = ?p and b = plan_lose_fat] g b
    by auto
  moreover have "map (\<lambda>w. length (exercises w)) (workouts (customizeWorkoutPlan plan_lose_fat ?p))
                   = [4, 4, 3]"
    by (simp add: customizeWorkoutPlan_def Let_def plan_lose_fat_def truthy_def)
  ultimately show ?thesis
    using g by simp
qed

end
